theory Spec2Isabelle
  imports Main "HOL-Library.AList"
begin

section \<open>Strings as Python formats them\<close>

text \<open>
  Python's \<^verbatim>\<open>str\<close> is modelled as \<^typ>\<open>string\<close>. \<^verbatim>\<open>sep.join(xs)\<close>,
  \<^verbatim>\<open>"{}".format(n)\<close> for an integer and the double quote character are written out.
\<close>

definition dquote :: "string \<Rightarrow> string" where
  "dquote s = CHR 0x22 # s @ [CHR 0x22]"

fun join :: "string \<Rightarrow> string list \<Rightarrow> string" where
  "join sep [] = []"
| "join sep [x] = x"
| "join sep (x # y # ys) = x @ sep @ join sep (y # ys)"

definition digit_char :: "nat \<Rightarrow> char" where
  "digit_char d = ''0123456789'' ! d"

fun str_nat :: "nat \<Rightarrow> string" where
  "str_nat n = (if n < 10 then [digit_char n] else str_nat (n div 10) @ [digit_char (n mod 10)])"

definition str_int :: "int \<Rightarrow> string" where
  "str_int i = (if i < 0 then ''-'' @ str_nat (nat (- i)) else str_nat (nat i))"

fun startswith :: "string \<Rightarrow> string \<Rightarrow> bool" where
  "startswith s [] = True"
| "startswith [] (c # sub) = False"
| "startswith (d # s) (c # sub) = (d = c \<and> startswith s sub)"

fun contains_str :: "string \<Rightarrow> string \<Rightarrow> bool" where
  "contains_str [] sub = (sub = [])"
| "contains_str (d # s) sub = (startswith (d # s) sub \<or> contains_str s sub)"

section \<open>Schema metadata\<close>

text \<open>
  The \<^verbatim>\<open>Table\<close> and \<^verbatim>\<open>Relationship\<close> classes are not among the sources; the model
  keeps exactly the attributes that \<^verbatim>\<open>query.py\<close> and \<^verbatim>\<open>column.py\<close> read from them.
  A column refers to its owning table through a \<open>tableref\<close>: the identity of the table
  object (\<open>table_id\<close>, what \<^verbatim>\<open>==\<close> on two table classes compares) and the table's
  \<^verbatim>\<open>__tablename__\<close> and \<^verbatim>\<open>__quoted_name__\<close>. This breaks the cycle between tables and
  columns of the object graph. Two table objects may carry the same name.
\<close>

record tableref =
  table_id :: nat
  tablename :: string
  quoted_name :: string

record column =
  table :: tableref
  name :: string

datatype table =
  Table (table_ref: tableref) (iter_columns: "column list") (primary_key: "column list")
    (iter_relationships: "relationship list")
and relationship =
  Relationship (load_type: string) (foreign_table: table) (join_columns: "column \<times> column")

datatype error =
  AttributeError
  | TypeError string
  | KeyError string
  | IndexError
  | StopAsyncIteration

subsection \<open>\<^verbatim>\<open>Column\<close> (column.py)\<close>

definition quoted_fullname :: "column \<Rightarrow> string" where
  "quoted_fullname self = dquote (tablename (table self)) @ ''.'' @ dquote (name self)"

definition alias_name :: "column \<Rightarrow> tableref option \<Rightarrow> bool \<Rightarrow> string" where
  "alias_name self tbl quoted =
     (let tbl' = (case tbl of None \<Rightarrow> table self | Some t \<Rightarrow> t);
          fmt = ''t_'' @ tablename tbl' @ ''_'' @ name self
      in if quoted then dquote fmt else fmt)"

text \<open>
  A Python value that is not a \<^verbatim>\<open>Column\<close> is \<^verbatim>\<open>None\<close>, a \<^verbatim>\<open>dict\<close> (its keys
  strings or \<^verbatim>\<open>None\<close>) or any other value. The right operand of a comparison is any
  Python object: another \<^verbatim>\<open>Column\<close>, or such a value. The result of \<^verbatim>\<open>__eq__\<close> and
  \<^verbatim>\<open>__ne__\<close> is a plain boolean or an operator object of the operators module.
\<close>

datatype 'v pyval = PyNone | PyDict "(string option \<times> 'v pyval) list" | PyVal 'v

datatype 'v pyobject = ColumnObj column | OtherObj "'v pyval"

datatype 'v operator =
  Eq column "'v pyobject"
  | NEq column "'v pyobject"
  | Lt column "'v pyobject"
  | Gt column "'v pyobject"
  | Lte column "'v pyobject"
  | Gte column "'v pyobject"

datatype 'v compared = PyBool bool | Operator "'v operator"

fun column_eq :: "column \<Rightarrow> 'v pyobject \<Rightarrow> 'v compared" where
  "column_eq self (ColumnObj other) =
     PyBool (table_id (table self) = table_id (table other) \<and> name self = name other)"
| "column_eq self (OtherObj other) = Operator (Eq self (OtherObj other))"

fun column_ne :: "column \<Rightarrow> 'v pyobject \<Rightarrow> 'v compared" where
  "column_ne self (ColumnObj other) =
     PyBool (table_id (table self) \<noteq> table_id (table other) \<or> name self \<noteq> name other)"
| "column_ne self (OtherObj other) = Operator (NEq self (OtherObj other))"

section \<open>\<^verbatim>\<open>SelectQuery\<close> (query.py)\<close>

text \<open>
  \<^verbatim>\<open>Column.asc()\<close>, \<^verbatim>\<open>Column.desc()\<close> and \<^verbatim>\<open>order_by\<close> build sorter objects from the
  positional arguments, each a \<^verbatim>\<open>Column\<close> or a \<^verbatim>\<open>Sorter\<close>.
\<close>

datatype order_item = ColumnItem column | SorterItem sorter
and sorter = AscSorter "order_item list" | DescSorter "order_item list"

text \<open>
  The builder state of a \<^verbatim>\<open>SelectQuery\<close>. The conditions are objects of the operators
  module, of any type \<open>'c\<close>; \<^verbatim>\<open>None\<close> for the table, the limit, the offset and the
  orderer is \<open>None\<close>.
\<close>

record 'c select_query =
  q_table :: "table option"
  conditions :: "'c list"
  row_limit :: "int option"
  row_offset :: "int option"
  orderer :: "sorter option"

definition init_select_query :: "'c select_query" where
  "init_select_query =
     \<lparr>q_table = None, conditions = [], row_limit = None, row_offset = None, orderer = None\<rparr>"

definition set_table :: "'c select_query \<Rightarrow> table \<Rightarrow> 'c select_query" where
  "set_table self tbl = self\<lparr>q_table := Some tbl\<rparr>"

definition select_from :: "'c select_query \<Rightarrow> table \<Rightarrow> 'c select_query" where
  "select_from self tbl = set_table self tbl"

definition add_condition :: "'c select_query \<Rightarrow> 'c \<Rightarrow> 'c select_query" where
  "add_condition self condition = self\<lparr>conditions := conditions self @ [condition]\<rparr>"

definition select_where :: "'c select_query \<Rightarrow> 'c list \<Rightarrow> 'c select_query" where
  "select_where self conds = fold (\<lambda>condition q. add_condition q condition) conds self"

definition limit :: "'c select_query \<Rightarrow> int option \<Rightarrow> 'c select_query" where
  "limit self n = self\<lparr>row_limit := n\<rparr>"

definition offset :: "'c select_query \<Rightarrow> int option \<Rightarrow> 'c select_query" where
  "offset self n = self\<lparr>row_offset := n\<rparr>"

text \<open>
  \<^verbatim>\<open>from_\<close> and \<^verbatim>\<open>where\<close> are \<open>select_from\<close> and \<open>select_where\<close> above; \<open>limit\<close> and
  \<open>offset\<close> store the argument, an integer or \<^verbatim>\<open>None\<close>.
  \<^verbatim>\<open>order_by(*col, sort_order="asc")\<close>: either exception leaves the query as it was, which
  is the \<open>Inl\<close> result; otherwise the updated query is returned.
\<close>

definition order_by :: "'c select_query \<Rightarrow> order_item list \<Rightarrow> string \<Rightarrow> error + 'c select_query" where
  "order_by self col sort_order =
     (if col = [] then Inl (TypeError ''Must provide at least one item to order with'')
      else (case col of
              [SorterItem s] \<Rightarrow> Inr (self\<lparr>orderer := Some s\<rparr>)
            | _ \<Rightarrow>
               (if sort_order = ''asc'' then Inr (self\<lparr>orderer := Some (AscSorter col)\<rparr>)
                else if sort_order = ''desc'' then Inr (self\<lparr>orderer := Some (DescSorter col)\<rparr>)
                else Inl (TypeError (''Unknown sort order '' @ sort_order)))))"

subsection \<open>Join paths and the projection\<close>

definition join_clause :: "relationship \<Rightarrow> string" where
  "join_clause relationship =
     (case join_columns relationship of
        (column1, column2) \<Rightarrow>
          ''JOIN '' @ quoted_name (table_ref (foreign_table relationship)) @ '' ''
            @ ''ON '' @ quoted_fullname column1 @ '' = '' @ quoted_fullname column2)"

fun get_required_join_paths :: "relationship list \<Rightarrow> table list \<times> string list" where
  "get_required_join_paths [] = ([], [])"
| "get_required_join_paths (relationship # rest) =
     (if load_type relationship \<noteq> ''joined'' then get_required_join_paths rest
      else (case get_required_join_paths rest of
              (foreign_tables, joins) \<Rightarrow>
                (foreign_table relationship # foreign_tables, join_clause relationship # joins)))"

definition column_expr :: "column \<Rightarrow> string" where
  "column_expr c =
     dquote (tablename (table c)) @ ''.'' @ dquote (name c) @ '' AS '' @ alias_name c None True"

subsection \<open>Conditions and the parameter map\<close>

text \<open>
  A condition's \<^verbatim>\<open>generate_sql(emit_param, counter)\<close> returns the triple
  \<^verbatim>\<open>(condition_sql, name, val)\<close> and may advance the counter, an \<^verbatim>\<open>itertools.count()\<close>
  whose state is the next integer it yields. The method belongs to the operators
  module, so it is the parameter \<open>gen\<close> of the compilation. The parameter map is a
  \<^verbatim>\<open>dict\<close>: an association list in insertion order, updated in place for a key it holds.
\<close>

type_synonym 'v params = "(string option \<times> 'v pyval) list"

type_synonym 'v emitted = "string \<times> string option \<times> 'v pyval"

definition dict_update :: "'v params \<Rightarrow> 'v params \<Rightarrow> 'v params" where
  "dict_update params d = fold (\<lambda>(k, v). AList.update k v) d params"

fun bind_param :: "string option \<Rightarrow> 'v pyval \<Rightarrow> 'v params \<Rightarrow> 'v params" where
  "bind_param pname PyNone params = params"
| "bind_param pname (PyDict d) params =
     (if pname = None then dict_update params d else AList.update pname (PyDict d) params)"
| "bind_param pname (PyVal v) params = AList.update pname (PyVal v) params"

fun format_conditions ::
  "('c \<Rightarrow> nat \<Rightarrow> 'v emitted \<times> nat) \<Rightarrow> 'c list \<Rightarrow> 'v params \<times> string list \<times> nat
     \<Rightarrow> 'v params \<times> string list \<times> nat" where
  "format_conditions gen [] st = st"
| "format_conditions gen (condition # rest) (params, c_sql, counter) =
     (case gen condition counter of
        ((condition_sql, pname, val), counter') \<Rightarrow>
          format_conditions gen rest
            (bind_param pname val params, c_sql @ [condition_sql], counter'))"

text \<open>The triples the conditions return during one compilation, in order.\<close>

fun emitted_triples :: "('c \<Rightarrow> nat \<Rightarrow> 'v emitted \<times> nat) \<Rightarrow> 'c list \<Rightarrow> nat \<Rightarrow> 'v emitted list" where
  "emitted_triples gen [] counter = []"
| "emitted_triples gen (condition # rest) counter =
     (case gen condition counter of (t, counter') \<Rightarrow> t # emitted_triples gen rest counter')"


subsection \<open>\<^verbatim>\<open>generate_sql\<close>\<close>

text \<open>
  \<^verbatim>\<open>SelectQuery.generate_sql\<close>. \<open>gen\<close> and \<open>sgen\<close> are the \<^verbatim>\<open>generate_sql\<close> methods of
  the conditions and of the sorter, already applied to the session's \<^verbatim>\<open>emit_param\<close>.
  With no table set the first attribute access on \<^verbatim>\<open>self.table\<close> raises. The limit and
  the offset are formatted as integers. The method assigns no attribute of the query;
  the query is returned beside the result, as it is after the call.
\<close>

definition generate_sql ::
  "('c \<Rightarrow> nat \<Rightarrow> 'v emitted \<times> nat) \<Rightarrow> (sorter \<Rightarrow> nat \<Rightarrow> string) \<Rightarrow> 'c select_query
     \<Rightarrow> (error + string \<times> 'v params) \<times> 'c select_query" where
  "generate_sql gen sgen self =
     (case q_table self of
        None \<Rightarrow> (Inl AttributeError, self)
      | Some tbl \<Rightarrow>
          (case get_required_join_paths (iter_relationships tbl) of
             (foreign_tables, joins) \<Rightarrow>
               (let column_names =
                      map column_expr
                        (iter_columns tbl @ concat (map iter_columns foreign_tables));
                    fmt = ''SELECT '' @ join '', '' column_names @ '' FROM ''
                            @ quoted_name (table_ref tbl) @ '' ''
                in (case format_conditions gen (conditions self) ([], [], 0) of
                      (params, c_sql, counter) \<Rightarrow>
                        (let fmt = fmt @ join '' '' joins;
                             fmt = (if c_sql \<noteq> [] then fmt @ '' WHERE '' @ join '' AND '' c_sql
                                    else fmt);
                             fmt = (case row_limit self of
                                      None \<Rightarrow> fmt
                                    | Some n \<Rightarrow> fmt @ '' LIMIT '' @ str_int n);
                             fmt = (case row_offset self of
                                      None \<Rightarrow> fmt
                                    | Some n \<Rightarrow> fmt @ '' OFFSET '' @ str_int n);
                             fmt = (case orderer self of
                                      None \<Rightarrow> fmt
                                    | Some s \<Rightarrow> fmt @ '' ORDER BY '' @ sgen s counter)
                         in (Inr (fmt, params), self))))))"

text \<open>\<^verbatim>\<open>itertools.count()\<close>: a new counter, at 0, and the store that holds it.\<close>

definition itertools_count :: "nat list \<Rightarrow> nat \<times> nat list" where
  "itertools_count store = (length store, store @ [0])"

text \<open>
  The same method with the counter as the object it is. \<^verbatim>\<open>itertools.count()\<close> creates a
  new counter object; the store holds the state of every counter object created so far,
  a counter being its position in the store. The conditions advance the counter of the
  call; counters of earlier calls stay in the store as they were left. A call takes the
  query and the store and returns its result, the query and the store after the call.
\<close>

definition generate_sql_call ::
  "('c \<Rightarrow> nat \<Rightarrow> 'v emitted \<times> nat) \<Rightarrow> (sorter \<Rightarrow> nat \<Rightarrow> string) \<Rightarrow> 'c select_query \<times> nat list
     \<Rightarrow> (error + string \<times> 'v params) \<times> 'c select_query \<times> nat list" where
  "generate_sql_call gen sgen call =
     (case call of
        (self, store) \<Rightarrow>
          (case itertools_count store of
             (counter, store) \<Rightarrow>
               (case q_table self of
                  None \<Rightarrow> (Inl AttributeError, self, store)
                | Some tbl \<Rightarrow>
                    (case get_required_join_paths (iter_relationships tbl) of
                       (foreign_tables, joins) \<Rightarrow>
                         (let column_names =
                                map column_expr
                                  (iter_columns tbl @ concat (map iter_columns foreign_tables));
                              fmt = ''SELECT '' @ join '', '' column_names @ '' FROM ''
                                      @ quoted_name (table_ref tbl) @ '' ''
                          in (case format_conditions gen (conditions self) ([], [], store ! counter) of
                                (params, c_sql, n) \<Rightarrow>
                                  (let store = store[counter := n];
                                       fmt = fmt @ join '' '' joins;
                                       fmt = (if c_sql \<noteq> [] then fmt @ '' WHERE '' @ join '' AND '' c_sql
                                              else fmt);
                                       fmt = (case row_limit self of
                                                None \<Rightarrow> fmt
                                              | Some n \<Rightarrow> fmt @ '' LIMIT '' @ str_int n);
                                       fmt = (case row_offset self of
                                                None \<Rightarrow> fmt
                                              | Some n \<Rightarrow> fmt @ '' OFFSET '' @ str_int n);
                                       fmt = (case orderer self of
                                                None \<Rightarrow> fmt
                                              | Some s \<Rightarrow> fmt @ '' ORDER BY '' @ sgen s (store ! counter))
                                   in (Inr (fmt, params), self, store))))))))"

subsection \<open>Mapping result rows\<close>

text \<open>
  A result row of the cursor is a mapping from alias to value, in the order of the
  projection: an association list whose keys are distinct, as a mapping's are.
\<close>

type_synonym 'v row = "(string \<times> 'v) list"

text \<open>
  Modelled from the spec: the row object (\<^verbatim>\<open>TableRow\<close>, and the table class that
  constructs one), which is not among the sources. The specification: a row object
  owns a snapshot of previous values per column and the relationship data attached to
  it, is marked as existed when it was produced by mapping, and is bound to the
  session; it exposes \<^verbatim>\<open>get_column_value(column, use_default) -> value_or_sentinel\<close> and
  an \<^verbatim>\<open>attach_relationship_data(alias_keyed_mapping)\<close> mutator (in the source,
  \<^verbatim>\<open>_update_relationships\<close>). The record keeps the keyword arguments the object was
  constructed from, the snapshot \<^verbatim>\<open>_previous_values\<close>, the flag \<^verbatim>\<open>__existed\<close>, whether a
  session is bound, and every mapping handed to \<^verbatim>\<open>_update_relationships\<close>, in call
  order; the sentinel \<^verbatim>\<open>NO_VALUE\<close> is \<open>None\<close>.
\<close>

record 'v table_row =
  column_values :: "(string \<times> 'v) list"
  previous_values :: "(column \<times> 'v) list"
  existed :: bool
  session_bound :: bool
  relationship_data :: "'v row list"

definition get_column_value :: "'v table_row \<Rightarrow> column \<Rightarrow> 'v option" where
  "get_column_value r c = map_of (column_values r) (name c)"

definition update_relationships :: "'v table_row \<Rightarrow> 'v row \<Rightarrow> 'v table_row" where
  "update_relationships r data = r\<lparr>relationship_data := relationship_data r @ [data]\<rparr>"

text \<open>
  \<^verbatim>\<open>map_columns\<close> and \<^verbatim>\<open>map_many\<close>. The constructor call \<^verbatim>\<open>self.table(**row_expando)\<close> is
  the parameter \<open>new_row\<close>; it returns \<open>None\<close> where the call raises \<^verbatim>\<open>TypeError\<close>, which
  \<^verbatim>\<open>map_columns\<close> answers with a \<^verbatim>\<open>TypeError\<close> of its own. Its message is two adjacent
  string literals.
\<close>

definition init_failed :: string where
  "init_failed =
     ''Failed to initialize a new row object. Does your `__init__` allow''
       @ ''all columns to be passed as values?''"

definition alias_mapping :: "table \<Rightarrow> (string \<times> column) list" where
  "alias_mapping tbl =
     fold (\<lambda>c m. AList.update (alias_name c (Some (table_ref tbl)) False) c m) (iter_columns tbl) []"

fun split_results ::
  "(string \<times> column) list \<Rightarrow> 'v row \<Rightarrow> (string \<times> 'v) list \<times> 'v row \<Rightarrow> (string \<times> 'v) list \<times> 'v row" where
  "split_results mapping [] acc = acc"
| "split_results mapping ((colname, v) # rest) (row_expando, relation_data) =
     (case map_of mapping colname of
        Some c \<Rightarrow> split_results mapping rest (AList.update (name c) v row_expando, relation_data)
      | None \<Rightarrow> split_results mapping rest (row_expando, AList.update colname v relation_data))"

definition snapshot_previous :: "column list \<Rightarrow> 'v table_row \<Rightarrow> 'v table_row" where
  "snapshot_previous cols r =
     fold (\<lambda>c r'. (case get_column_value r' c of
                      None \<Rightarrow> r'
                    | Some v \<Rightarrow> r'\<lparr>previous_values := AList.update c v (previous_values r')\<rparr>))
       cols r"

definition map_columns ::
  "((string \<times> 'v) list \<Rightarrow> 'v table_row option) \<Rightarrow> table \<Rightarrow> 'v row \<Rightarrow> error + 'v table_row" where
  "map_columns new_row tbl results =
     (case split_results (alias_mapping tbl) results ([], []) of
        (row_expando, relation_data) \<Rightarrow>
          (case new_row row_expando of
             None \<Rightarrow> Inl (TypeError init_failed)
           | Some r \<Rightarrow>
               Inr (update_relationships
                      ((snapshot_previous (iter_columns tbl) r)\<lparr>existed := True, session_bound := True\<rparr>)
                      relation_data)))"

definition map_many ::
  "((string \<times> 'v) list \<Rightarrow> 'v table_row option) \<Rightarrow> table \<Rightarrow> 'v row list \<Rightarrow> error + 'v table_row" where
  "map_many new_row tbl rows =
     (case rows of
        [] \<Rightarrow> Inl IndexError
      | first_row # runon \<Rightarrow>
          (case map_columns new_row tbl first_row of
             Inl e \<Rightarrow> Inl e
           | Inr tbl_row \<Rightarrow> Inr (fold (\<lambda>runon_row r. update_relationships r runon_row) runon tbl_row)))"

section \<open>\<^verbatim>\<open>_ResultGenerator\<close> (query.py)\<close>

text \<open>
  \<^verbatim>\<open>row[alias]\<close> raises \<^verbatim>\<open>KeyError\<close> for a missing alias; the primary-key tuple of a row
  is the list of its values under the unquoted aliases of the primary-key columns.
\<close>

fun getitems :: "'v row \<Rightarrow> string list \<Rightarrow> error + 'v list" where
  "getitems row [] = Inr []"
| "getitems row (a # as) =
     (case map_of row a of
        None \<Rightarrow> Inl (KeyError a)
      | Some v \<Rightarrow> (case getitems row as of Inl e \<Rightarrow> Inl e | Inr vs \<Rightarrow> Inr (v # vs)))"

definition pkey :: "table \<Rightarrow> 'v row \<Rightarrow> error + 'v list" where
  "pkey tbl row = getitems row (map (\<lambda>col. alias_name col None False) (primary_key tbl))"

text \<open>
  The state of a generator: the rows its result set has still to yield (\<open>None\<close> before
  the first \<^verbatim>\<open>__anext__\<close> has run the query; \<^verbatim>\<open>fetch_row\<close> takes the head, and returns
  \<^verbatim>\<open>None\<close> on the empty list) and the deque. The query's table is the parameter \<open>tbl\<close>:
  a generator exists for a query the session has compiled.
\<close>

record 'v result_generator =
  results :: "'v row list option"
  result_deque :: "'v row list"

text \<open>
  The \<^verbatim>\<open>while True\<close> loop of \<^verbatim>\<open>_fill\<close>, by recursion on the rows left in the cursor.
  It returns \<^verbatim>\<open>rows_filled\<close> or the exception, the cursor and the deque.
\<close>

fun fill_loop ::
  "table \<Rightarrow> 'v list option \<Rightarrow> nat \<Rightarrow> 'v row list \<Rightarrow> 'v row list
     \<Rightarrow> (error + nat) \<times> 'v row list \<times> 'v row list" where
  "fill_loop tbl last_pkey rows_filled [] deque = (Inr rows_filled, [], deque)"
| "fill_loop tbl last_pkey rows_filled (row # cursor) deque =
     (case pkey tbl row of
        Inl e \<Rightarrow> (Inl e, cursor, deque @ [row])
      | Inr k \<Rightarrow>
          (case last_pkey of
             None \<Rightarrow> fill_loop tbl (Some k) (rows_filled + 1) cursor (deque @ [row])
           | Some l \<Rightarrow>
               if k = l then fill_loop tbl last_pkey (rows_filled + 1) cursor (deque @ [row])
               else (Inr rows_filled, cursor, deque @ [row])))"

definition fill :: "table \<Rightarrow> 'v row list \<Rightarrow> 'v row list \<Rightarrow> (error + nat) \<times> 'v row list \<times> 'v row list" where
  "fill tbl cursor deque =
     (case deque of
        [] \<Rightarrow> fill_loop tbl None 0 cursor deque
      | first # _ \<Rightarrow>
          (case pkey tbl first of
             Inl e \<Rightarrow> (Inl e, cursor, deque)
           | Inr k \<Rightarrow> fill_loop tbl (Some k) 1 cursor deque))"

text \<open>
  \<^verbatim>\<open>__anext__\<close>. \<open>fetched\<close> are the rows of the result set that the session returns when
  the query is run. \<^verbatim>\<open>popleft\<close> on an empty deque raises \<^verbatim>\<open>IndexError\<close>.
\<close>

definition anext ::
  "((string \<times> 'v) list \<Rightarrow> 'v table_row option) \<Rightarrow> table \<Rightarrow> 'v row list \<Rightarrow> 'v result_generator
     \<Rightarrow> (error + 'v table_row) \<times> 'v result_generator" where
  "anext new_row tbl fetched self =
     (let cursor = (case results self of None \<Rightarrow> fetched | Some c \<Rightarrow> c)
      in (case fill tbl cursor (result_deque self) of
            (Inl e, cursor', deque') \<Rightarrow> (Inl e, \<lparr>results = Some cursor', result_deque = deque'\<rparr>)
          | (Inr filled, cursor', deque') \<Rightarrow>
              if filled = 0
              then (Inl StopAsyncIteration, \<lparr>results = Some cursor', result_deque = deque'\<rparr>)
              else if length deque' < filled
              then (Inl IndexError, \<lparr>results = Some cursor', result_deque = []\<rparr>)
              else (let rows = take filled deque'
                    in (if length rows = 1 then map_columns new_row tbl (rows ! 0)
                        else map_many new_row tbl rows,
                        \<lparr>results = Some cursor', result_deque = drop filled deque'\<rparr>))))"

definition next_result ::
  "((string \<times> 'v) list \<Rightarrow> 'v table_row option) \<Rightarrow> table \<Rightarrow> 'v row list \<Rightarrow> 'v result_generator
     \<Rightarrow> (error + 'v table_row option) \<times> 'v result_generator" where
  "next_result new_row tbl fetched self =
     (case anext new_row tbl fetched self of
        (Inl StopAsyncIteration, self') \<Rightarrow> (Inr None, self')
      | (Inl e, self') \<Rightarrow> (Inl e, self')
      | (Inr r, self') \<Rightarrow> (Inr (Some r), self'))"

definition pending :: "'v row list \<Rightarrow> 'v result_generator \<Rightarrow> nat" where
  "pending fetched self =
     length (case results self of None \<Rightarrow> fetched | Some c \<Rightarrow> c) + length (result_deque self)"

lemma fill_loop_pending:
  "fill_loop tbl lk n cursor deque = (r, cursor', deque')
     \<Longrightarrow> length cursor' + length deque' = length cursor + length deque"
proof (induction cursor arbitrary: lk n deque)
  case Nil
  then show ?case by simp
next
  case (Cons row cursor)
  then show ?case
    by (auto split: sum.splits option.splits if_splits)
qed

lemma fill_pending:
  "fill tbl cursor deque = (r, cursor', deque')
     \<Longrightarrow> length cursor' + length deque' = length cursor + length deque"
  by (auto simp: fill_def split: list.splits sum.splits dest: fill_loop_pending)

lemma anext_pending:
  assumes "anext new_row tbl fetched self = (Inr x, self')"
  shows "pending fetched self' < pending fetched self"
proof -
  define cursor where "cursor = (case results self of None \<Rightarrow> fetched | Some c \<Rightarrow> c)"
  obtain r c' d' where f: "fill tbl cursor (result_deque self) = (r, c', d')"
    by (cases "fill tbl cursor (result_deque self)") auto
  have len: "length c' + length d' = length cursor + length (result_deque self)"
    by (rule fill_pending [OF f])
  from assms f obtain filled where
    "filled \<noteq> 0" "\<not> length d' < filled"
    "self' = \<lparr>results = Some c', result_deque = drop filled d'\<rparr>"
    by (auto simp: anext_def Let_def cursor_def split: sum.splits if_splits)
  then show ?thesis
    using len by (simp add: pending_def cursor_def)
qed

text \<open>
  \<^verbatim>\<open>flatten\<close>: the \<^verbatim>\<open>async for\<close> loop calls \<^verbatim>\<open>__anext__\<close> until it raises
  \<^verbatim>\<open>StopAsyncIteration\<close>; any other exception leaves the loop and the method.
\<close>

function flatten_loop ::
  "((string \<times> 'v) list \<Rightarrow> 'v table_row option) \<Rightarrow> table \<Rightarrow> 'v row list \<Rightarrow> 'v result_generator
     \<Rightarrow> 'v table_row list \<Rightarrow> error + 'v table_row list" where
  "flatten_loop new_row tbl fetched self l =
     (case anext new_row tbl fetched self of
        (Inr result, self') \<Rightarrow> flatten_loop new_row tbl fetched self' (l @ [result])
      | (Inl e, self') \<Rightarrow> (if e = StopAsyncIteration then Inr l else Inl e))"
  by pat_completeness auto
termination
  by (relation "measure (\<lambda>(new_row, tbl, fetched, self, l). pending fetched self)")
     (auto dest: anext_pending [OF sym])

definition flatten ::
  "((string \<times> 'v) list \<Rightarrow> 'v table_row option) \<Rightarrow> table \<Rightarrow> 'v row list \<Rightarrow> 'v result_generator
     \<Rightarrow> error + 'v table_row list" where
  "flatten new_row tbl fetched self = flatten_loop new_row tbl fetched self []"

text \<open>
  The specification's grouping, for comparison with \<open>flatten\<close>: the maximal runs of
  consecutive rows that share a key, in order.
\<close>

function pk_runs :: "('a \<Rightarrow> 'k) \<Rightarrow> 'a list \<Rightarrow> 'a list list" where
  "pk_runs key [] = []"
| "pk_runs key (x # xs) =
     (x # takeWhile (\<lambda>y. key y = key x) xs) # pk_runs key (dropWhile (\<lambda>y. key y = key x) xs)"
  by pat_completeness auto
termination
  by (relation "measure (\<lambda>(key, xs). length xs)") (auto simp: length_dropWhile_le less_Suc_eq_le)

text \<open>What \<^verbatim>\<open>__anext__\<close> hands to the mapping step for one group of rows.\<close>

definition map_group ::
  "((string \<times> 'v) list \<Rightarrow> 'v table_row option) \<Rightarrow> table \<Rightarrow> 'v row list \<Rightarrow> error + 'v table_row" where
  "map_group new_row tbl rows =
     (if length rows = 1 then map_columns new_row tbl (rows ! 0) else map_many new_row tbl rows)"

text \<open>A list of results as the loop of \<open>flatten\<close> sees it: the first exception ends it.\<close>

fun collect :: "(error + 'a) list \<Rightarrow> error + 'a list" where
  "collect [] = Inr []"
| "collect (Inl e # rs) = Inl e"
| "collect (Inr x # rs) = (case collect rs of Inl e \<Rightarrow> Inl e | Inr xs \<Rightarrow> Inr (x # xs))"

section \<open>\<^verbatim>\<open>InsertQuery\<close>, \<^verbatim>\<open>RowUpdateQuery\<close>, \<^verbatim>\<open>RowDeleteQuery\<close> (query.py)\<close>

text \<open>
  \<^verbatim>\<open>emit()\<close> of the three \<^verbatim>\<open>generate_sql\<close> methods formats the next integer of the
  counter.
\<close>

definition param_name :: "nat \<Rightarrow> string" where
  "param_name n = ''param_'' @ str_nat n"

text \<open>
  A row's \<^verbatim>\<open>_get_insert_sql(emit, session)\<close> (and its update and delete siblings) belongs
  to the row classes. All it can do with the counter is call \<^verbatim>\<open>emit\<close>: the method is
  modelled as a computation that either returns its result or calls \<^verbatim>\<open>emit()\<close> and goes
  on with the name it got.
\<close>

datatype 'a emitting = Return 'a | Emit "string \<Rightarrow> 'a emitting"

primrec run_emit :: "'a emitting \<Rightarrow> nat \<Rightarrow> 'a \<times> nat" where
  "run_emit (Return a) counter = (a, counter)"
| "run_emit (Emit k) counter = run_emit (k (param_name counter)) (Suc counter)"

text \<open>The names \<^verbatim>\<open>emit()\<close> returned during one such call, in order.\<close>

primrec emitted_names :: "'a emitting \<Rightarrow> nat \<Rightarrow> string list" where
  "emitted_names (Return a) counter = []"
| "emitted_names (Emit k) counter = param_name counter # emitted_names (k (param_name counter)) (Suc counter)"

type_synonym 'v statement = "string \<times> (string \<times> 'v) list"

record 'r insert_query =
  rows_to_insert :: "'r list"

record 'r row_update_query =
  rows_to_update :: "'r list"

record 'r row_delete_query =
  rows_to_delete :: "'r list"

text \<open>
  \<^verbatim>\<open>add_row\<close> returns a value and leaves the query changed: the pair of the returned
  object (\<open>None\<close> for \<^verbatim>\<open>None\<close>, \<open>Some q\<close> for the query \<^verbatim>\<open>self\<close>, in its state \<open>q\<close>) and the
  query after the call.
\<close>

definition insert_add_row :: "'r insert_query \<Rightarrow> 'r \<Rightarrow> 'r insert_query option \<times> 'r insert_query" where
  "insert_add_row self row =
     (let self' = self\<lparr>rows_to_insert := rows_to_insert self @ [row]\<rparr> in (Some self', self'))"

definition update_add_row ::
  "'r row_update_query \<Rightarrow> 'r \<Rightarrow> 'r row_update_query option \<times> 'r row_update_query" where
  "update_add_row self row =
     (let self' = self\<lparr>rows_to_update := rows_to_update self @ [row]\<rparr> in (Some self', self'))"

definition delete_add_row ::
  "'r row_delete_query \<Rightarrow> 'r \<Rightarrow> 'r row_delete_query option \<times> 'r row_delete_query" where
  "delete_add_row self row =
     (let self' = self\<lparr>rows_to_delete := rows_to_delete self @ [row]\<rparr> in (None, self'))"

text \<open>
  A method call on the object an earlier call returned: on \<^verbatim>\<open>None\<close> the attribute
  lookup raises \<^verbatim>\<open>AttributeError\<close>.
\<close>

definition chained :: "'q option \<Rightarrow> ('q \<Rightarrow> 'a) \<Rightarrow> error + 'a" where
  "chained returned method = (case returned of None \<Rightarrow> Inl AttributeError | Some q \<Rightarrow> Inr (method q))"

text \<open>
  \<^verbatim>\<open>rows(*rows)\<close> calls \<^verbatim>\<open>add_row\<close> for each row, drops what it returns, and returns
  \<^verbatim>\<open>self\<close>.
\<close>

definition insert_rows :: "'r insert_query \<Rightarrow> 'r list \<Rightarrow> 'r insert_query option \<times> 'r insert_query" where
  "insert_rows self rows =
     (let self' = fold (\<lambda>row q. snd (insert_add_row q row)) rows self in (Some self', self'))"

definition update_rows ::
  "'r row_update_query \<Rightarrow> 'r list \<Rightarrow> 'r row_update_query option \<times> 'r row_update_query" where
  "update_rows self rows =
     (let self' = fold (\<lambda>row q. snd (update_add_row q row)) rows self in (Some self', self'))"

definition delete_rows ::
  "'r row_delete_query \<Rightarrow> 'r list \<Rightarrow> 'r row_delete_query option \<times> 'r row_delete_query" where
  "delete_rows self rows =
     (let self' = fold (\<lambda>row q. snd (delete_add_row q row)) rows self in (Some self', self'))"

text \<open>
  The loop of the three \<^verbatim>\<open>generate_sql\<close> methods: one counter for the whole call, one
  appended entry per row.
\<close>

fun statements_loop :: "('r \<Rightarrow> 'a emitting) \<Rightarrow> 'r list \<Rightarrow> nat \<Rightarrow> 'a list \<Rightarrow> 'a list" where
  "statements_loop get_sql [] counter queries = queries"
| "statements_loop get_sql (row # rest) counter queries =
     (case run_emit (get_sql row) counter of
        (q, counter') \<Rightarrow> statements_loop get_sql rest counter' (queries @ [q]))"

definition insert_generate_sql ::
  "('r \<Rightarrow> 'v statement emitting) \<Rightarrow> 'r insert_query \<Rightarrow> 'v statement list" where
  "insert_generate_sql get_insert_sql self =
     statements_loop (\<lambda>row. get_insert_sql row) (rows_to_insert self) 0 []"

definition update_generate_sql ::
  "('r \<Rightarrow> 'v statement emitting) \<Rightarrow> 'r row_update_query \<Rightarrow> 'v statement list" where
  "update_generate_sql get_update_sql self =
     statements_loop (\<lambda>row. get_update_sql row) (rows_to_update self) 0 []"

definition delete_generate_sql ::
  "('r \<Rightarrow> 'v statement emitting) \<Rightarrow> 'r row_delete_query \<Rightarrow> 'v statement list" where
  "delete_generate_sql get_delete_sql self =
     statements_loop (\<lambda>row. get_delete_sql row) (rows_to_delete self) 0 []"

text \<open>
  The names \<^verbatim>\<open>emit()\<close> returned to each row during one \<^verbatim>\<open>generate_sql\<close> call, row by
  row, and the state of the counter when the row at a position is reached.
\<close>

fun names_per_row :: "('r \<Rightarrow> 'a emitting) \<Rightarrow> 'r list \<Rightarrow> nat \<Rightarrow> string list list" where
  "names_per_row get_sql [] counter = []"
| "names_per_row get_sql (row # rest) counter =
     emitted_names (get_sql row) counter
       # names_per_row get_sql rest (snd (run_emit (get_sql row) counter))"

fun counter_at :: "('r \<Rightarrow> 'a emitting) \<Rightarrow> 'r list \<Rightarrow> nat \<Rightarrow> nat \<Rightarrow> nat" where
  "counter_at get_sql rows counter 0 = counter"
| "counter_at get_sql [] counter (Suc i) = counter"
| "counter_at get_sql (row # rest) counter (Suc i) =
     counter_at get_sql rest (snd (run_emit (get_sql row) counter)) i"

section \<open>The operators module, as the specification describes it\<close>

text \<open>
  Modelled from the spec: the operators module (\<^verbatim>\<open>katagawa/orm/operators.py\<close>), whose
  classes \<^verbatim>\<open>Eq\<close>, \<^verbatim>\<open>NEq\<close>, \<^verbatim>\<open>Lt\<close>, \<^verbatim>\<open>Gt\<close>, \<^verbatim>\<open>Lte\<close>, \<^verbatim>\<open>Gte\<close> and their \<^verbatim>\<open>generate_sql\<close> are not
  among the sources. The specification: given two operands (a Column and a literal
  value, or two Columns), a predicate emits
  \<^verbatim>\<open>(sql_fragment, placeholder_name_or_none, bound_value_or_none)\<close> when given a
  placeholder-name generator and a running counter; each comparison operator maps to
  one SQL operator token; placeholder names come from the counter shared across the
  compilation. The name of a placeholder is formatted as \<^verbatim>\<open>emit()\<close> of the mutation
  queries formats it.
\<close>

fun operator_token :: "'v operator \<Rightarrow> string" where
  "operator_token (Eq c x) = ''=''"
| "operator_token (NEq c x) = ''!=''"
| "operator_token (Lt c x) = ''<''"
| "operator_token (Gt c x) = ''>''"
| "operator_token (Lte c x) = ''<=''"
| "operator_token (Gte c x) = ''>=''"

fun operator_column :: "'v operator \<Rightarrow> column" where
  "operator_column (Eq c x) = c"
| "operator_column (NEq c x) = c"
| "operator_column (Lt c x) = c"
| "operator_column (Gt c x) = c"
| "operator_column (Lte c x) = c"
| "operator_column (Gte c x) = c"

fun operator_operand :: "'v operator \<Rightarrow> 'v pyobject" where
  "operator_operand (Eq c x) = x"
| "operator_operand (NEq c x) = x"
| "operator_operand (Lt c x) = x"
| "operator_operand (Gt c x) = x"
| "operator_operand (Lte c x) = x"
| "operator_operand (Gte c x) = x"

definition operator_generate_sql :: "(string \<Rightarrow> string) \<Rightarrow> 'v operator \<Rightarrow> nat \<Rightarrow> 'v emitted \<times> nat" where
  "operator_generate_sql emit_param p counter =
     (case operator_operand p of
        ColumnObj c2 \<Rightarrow>
          ((quoted_fullname (operator_column p) @ '' '' @ operator_token p @ '' ''
              @ quoted_fullname c2, None, PyNone), counter)
      | OtherObj v \<Rightarrow>
          ((quoted_fullname (operator_column p) @ '' '' @ operator_token p @ '' ''
              @ emit_param (param_name counter), Some (param_name counter), v), Suc counter))"

section \<open>An example schema\<close>

text \<open>
  Two tables for the concrete instances below: \<^verbatim>\<open>users(id, email)\<close> with primary key
  \<^verbatim>\<open>id\<close> and an eagerly joined relationship to \<^verbatim>\<open>posts(id, user_id)\<close>.
\<close>

definition users_ref :: tableref where
  "users_ref = \<lparr>table_id = 1, tablename = ''users'', quoted_name = dquote ''users''\<rparr>"

definition posts_ref :: tableref where
  "posts_ref = \<lparr>table_id = 2, tablename = ''posts'', quoted_name = dquote ''posts''\<rparr>"

definition users_id :: column where
  "users_id = \<lparr>table = users_ref, name = ''id''\<rparr>"

definition users_email :: column where
  "users_email = \<lparr>table = users_ref, name = ''email''\<rparr>"

definition posts_id :: column where
  "posts_id = \<lparr>table = posts_ref, name = ''id''\<rparr>"

definition posts_user_id :: column where
  "posts_user_id = \<lparr>table = posts_ref, name = ''user_id''\<rparr>"

text \<open>A second table object that is also named \<^verbatim>\<open>users\<close>, with a column \<^verbatim>\<open>id\<close>.\<close>

definition namesake_ref :: tableref where
  "namesake_ref = \<lparr>table_id = 5, tablename = ''users'', quoted_name = dquote ''users''\<rparr>"

definition namesake_id :: column where
  "namesake_id = \<lparr>table = namesake_ref, name = ''id''\<rparr>"

definition posts :: table where
  "posts = Table posts_ref [posts_id, posts_user_id] [posts_id] []"

definition users :: table where
  "users =
     Table users_ref [users_id, users_email] [users_id]
       [Relationship ''joined'' posts (users_id, posts_user_id)]"

text \<open>
  A query on \<^verbatim>\<open>users\<close> with two conditions, limit and offset 0 and an orderer; and a
  row constructor that does not accept the keyword \<^verbatim>\<open>email\<close>.
\<close>

definition example_query :: "int operator select_query" where
  "example_query =
     \<lparr>q_table = Some users,
      conditions = [Eq users_id (OtherObj (PyVal 2)), Lt users_id (ColumnObj posts_user_id)],
      row_limit = Some 0, row_offset = Some 0,
      orderer = Some (AscSorter [ColumnItem users_id])\<rparr>"

definition no_email_row :: "(string \<times> int) list \<Rightarrow> int table_row option" where
  "no_email_row kwargs =
     (if ''email'' \<in> fst ` set kwargs then None
      else Some \<lparr>column_values = kwargs, previous_values = [], existed = False,
                 session_bound = False, relationship_data = []\<rparr>)"


definition zero_binding :: "unit \<Rightarrow> nat \<Rightarrow> int emitted \<times> nat" where
  "zero_binding c counter =
     ((''x = :'' @ param_name counter, Some (param_name counter), PyVal 0), Suc counter)"

definition one_condition_query :: "unit select_query" where
  "one_condition_query =
     \<lparr>q_table = Some posts, conditions = [()], row_limit = None, row_offset = None,
      orderer = None\<rparr>"

text \<open>
  A row's statement method that asks \<^verbatim>\<open>emit\<close> for one placeholder and binds the row's
  one value under it.
\<close>

definition single_value_insert :: "int \<Rightarrow> int statement emitting" where
  "single_value_insert v =
     Emit (\<lambda>n. Return (''INSERT INTO t (x) VALUES (:'' @ n @ '')'', [(n, v)]))"

text \<open>
  A row constructor that accepts every keyword, and the rows of the grouping scenario:
  two rows for the user with primary key 1, one for the user with primary key 2.
\<close>

definition accept_row :: "(string \<times> int) list \<Rightarrow> int table_row option" where
  "accept_row kwargs =
     Some \<lparr>column_values = kwargs, previous_values = [], existed = False,
           session_bound = False, relationship_data = []\<rparr>"

definition joined_row :: "int \<Rightarrow> int \<Rightarrow> int row" where
  "joined_row pk child = [(''t_users_id'', pk), (''t_posts_id'', child)]"

definition joined_rows :: "int row list" where
  "joined_rows = [joined_row 1 10, joined_row 1 11, joined_row 2 12]"

section \<open>Properties\<close>

lemmas example_defs = users_ref_def posts_ref_def users_id_def users_email_def posts_id_def
  posts_user_id_def posts_def users_def


subsection \<open>Decimal numerals and placeholder names\<close>

lemma digit_char_inj: "a < 10 \<Longrightarrow> b < 10 \<Longrightarrow> digit_char a = digit_char b \<Longrightarrow> a = b"
proof -
  assume a: "a < 10" and b: "b < 10" and e: "digit_char a = digit_char b"
  have A: "a \<in> {0,1,2,3,4,5,6,7,8,9}" using a by auto
  have B: "b \<in> {0,1,2,3,4,5,6,7,8,9}" using b by auto
  show ?thesis using A B e by (auto simp: digit_char_def)
qed

lemma str_nat_nonempty: "str_nat n \<noteq> []"
  by (subst str_nat.simps) simp

lemma str_nat_inj: "str_nat n = str_nat m \<Longrightarrow> n = m"
proof (induction n arbitrary: m rule: str_nat.induct)
  case (1 n)
  show ?case
  proof (cases "n < 10")
    case True
    note n = this
    show ?thesis
    proof (cases "m < 10")
      case True
      with n "1.prems" show ?thesis by (auto dest: digit_char_inj)
    next
      case False
      with n "1.prems" str_nat_nonempty [of "m div 10"] show ?thesis
        by (subst (asm) str_nat.simps, subst (asm) (2) str_nat.simps) auto
    qed
  next
    case False
    note n = this
    show ?thesis
    proof (cases "m < 10")
      case True
      with n "1.prems" str_nat_nonempty [of "n div 10"] show ?thesis
        by (subst (asm) str_nat.simps, subst (asm) (2) str_nat.simps) auto
    next
      case False
      from n False "1.prems" have e: "str_nat (n div 10) = str_nat (m div 10)"
        and d: "digit_char (n mod 10) = digit_char (m mod 10)"
        by (subst (asm) str_nat.simps, subst (asm) (2) str_nat.simps, simp)+
      from "1.IH" [OF n e] have "n div 10 = m div 10" .
      moreover from d have "n mod 10 = m mod 10"
        by (rule digit_char_inj [rotated 2]) simp_all
      ultimately show ?thesis by (metis div_mult_mod_eq)
    qed
  qed
qed

lemma param_name_inj: "param_name n = param_name m \<Longrightarrow> n = m"
  by (simp add: param_name_def str_nat_inj)

subsection \<open>The result stream\<close>

lemma fill_loop_run:
  assumes "\<forall>r\<in>set cursor. \<not> isl (pkey tbl r)"
  shows "fill_loop tbl (Some k) n cursor deque
     = (Inr (n + length (takeWhile (\<lambda>r. pkey tbl r = Inr k) cursor)),
        drop 1 (dropWhile (\<lambda>r. pkey tbl r = Inr k) cursor),
        deque @ takeWhile (\<lambda>r. pkey tbl r = Inr k) cursor
          @ take 1 (dropWhile (\<lambda>r. pkey tbl r = Inr k) cursor))"
  using assms
proof (induction cursor arbitrary: n deque)
  case Nil
  show ?case by simp
next
  case (Cons row cursor)
  from Cons.prems obtain k' where k': "pkey tbl row = Inr k'"
    by (cases "pkey tbl row") auto
  from Cons.prems have rest: "\<forall>r\<in>set cursor. \<not> isl (pkey tbl r)" by simp
  show ?case
  proof (cases "k' = k")
    case True
    with k' Cons.IH [OF rest, of "n + 1" "deque @ [row]"] show ?thesis by simp
  next
    case False
    with k' show ?thesis by simp
  qed
qed

lemma fill_pending_rows:
  assumes "\<forall>r\<in>set (x # xs). \<not> isl (pkey tbl r)"
    and "deque @ cursor = x # xs" and "length deque \<le> 1"
  shows "fill tbl cursor deque
     = (Inr (1 + length (takeWhile (\<lambda>y. pkey tbl y = pkey tbl x) xs)),
        drop 1 (dropWhile (\<lambda>y. pkey tbl y = pkey tbl x) xs),
        x # takeWhile (\<lambda>y. pkey tbl y = pkey tbl x) xs
          @ take 1 (dropWhile (\<lambda>y. pkey tbl y = pkey tbl x) xs))"
proof -
  from assms(1) obtain k where k: "pkey tbl x = Inr k"
    by (cases "pkey tbl x") auto
  from assms(1) have rest: "\<forall>r\<in>set xs. \<not> isl (pkey tbl r)" by simp
  show ?thesis
  proof (cases deque)
    case Nil
    with assms(2) have c: "cursor = x # xs" by simp
    show ?thesis
      using Nil c k fill_loop_run [OF rest, of k 1 "[x]"] by (simp add: fill_def)
  next
    case (Cons d ds)
    with assms(2,3) have c: "deque = [x]" "cursor = xs" by simp_all
    show ?thesis
      using c k fill_loop_run [OF rest, of k 1 "[x]"] by (simp add: fill_def)
  qed
qed

lemma anext_step:
  assumes "\<forall>r\<in>set (x # xs). \<not> isl (pkey tbl r)"
    and "result_deque st @ (case results st of None \<Rightarrow> fetched | Some c \<Rightarrow> c) = x # xs"
    and "length (result_deque st) \<le> 1"
  shows "anext new_row tbl fetched st
     = (map_group new_row tbl (x # takeWhile (\<lambda>y. pkey tbl y = pkey tbl x) xs),
        \<lparr>results = Some (drop 1 (dropWhile (\<lambda>y. pkey tbl y = pkey tbl x) xs)),
         result_deque = take 1 (dropWhile (\<lambda>y. pkey tbl y = pkey tbl x) xs)\<rparr>)"
  unfolding anext_def Let_def fill_pending_rows [OF assms]
  by (simp add: map_group_def)

lemma anext_stop:
  assumes "result_deque st @ (case results st of None \<Rightarrow> fetched | Some c \<Rightarrow> c) = []"
  shows "fst (anext new_row tbl fetched st) = Inl StopAsyncIteration"
  using assms by (simp add: anext_def fill_def)

lemma map_group_not_stop: "map_group new_row tbl rows \<noteq> Inl StopAsyncIteration"
  by (auto simp: map_group_def map_columns_def map_many_def init_failed_def
      split: prod.splits option.splits list.splits sum.splits)

lemma flatten_loop_runs:
  assumes "\<forall>r\<in>set rows. \<not> isl (pkey tbl r)"
    and "result_deque st @ (case results st of None \<Rightarrow> fetched | Some c \<Rightarrow> c) = rows"
    and "length (result_deque st) \<le> 1"
  shows "flatten_loop new_row tbl fetched st l
     = (case collect (map (map_group new_row tbl) (pk_runs (pkey tbl) rows)) of
          Inl e \<Rightarrow> Inl e
        | Inr xs \<Rightarrow> Inr (l @ xs))"
  using assms
proof (induction "pkey tbl :: (string \<times> 'a) list \<Rightarrow> error + 'a list" rows arbitrary: st l rule: pk_runs.induct)
  case 1
  then show ?case
    using anext_stop [of st fetched new_row tbl]
    by (subst flatten_loop.simps) (auto simp del: flatten_loop.simps split: prod.splits sum.splits)
next
  case (2 x xs)
  let ?same = "takeWhile (\<lambda>y. pkey tbl y = pkey tbl x) xs"
  let ?rest = "dropWhile (\<lambda>y. pkey tbl y = pkey tbl x) xs"
  let ?st' = "\<lparr>results = Some (drop 1 ?rest), result_deque = take 1 ?rest\<rparr>"
  have step: "anext new_row tbl fetched st = (map_group new_row tbl (x # ?same), ?st')"
    by (rule anext_step [OF "2.prems"])
  have rest: "\<forall>r\<in>set ?rest. \<not> isl (pkey tbl r)"
    using "2.prems"(1) by (auto dest: set_dropWhileD)
  have ih: "flatten_loop new_row tbl fetched ?st' l'
     = (case collect (map (map_group new_row tbl) (pk_runs (pkey tbl) ?rest)) of
          Inl e \<Rightarrow> Inl e
        | Inr xs \<Rightarrow> Inr (l' @ xs))" for l'
    by (rule "2.hyps" [OF rest]) simp_all
  show ?case
  proof (cases "map_group new_row tbl (x # ?same)")
    case (Inl e)
    with step map_group_not_stop [of new_row tbl "x # ?same"] show ?thesis
      by (subst flatten_loop.simps) (simp del: flatten_loop.simps)
  next
    case (Inr obj)
    with step ih [of "l @ [obj]"] show ?thesis
      by (subst flatten_loop.simps) (simp del: flatten_loop.simps split: sum.splits)
  qed
qed


lemma collect_case: "(case c of Inl e \<Rightarrow> Inl e | Inr xs \<Rightarrow> Inr ([] @ xs)) = c"
  by (cases c) simp_all

text \<open>
  C1. For a cursor whose rows all carry the primary-key aliases, the stream of mapped
  row objects that \<^verbatim>\<open>flatten\<close> collects is the mapping of each maximal run of
  consecutive rows with the same primary-key tuple, in cursor order (an exception of
  the mapping step ends it). At every point of the stream where rows are pending, the
  deque holding at most one row, \<^verbatim>\<open>__anext__\<close> maps the first pending row together with
  the rows that follow it with the same primary key, and leaves the first row with a
  different primary key, if there is one, as the only row in the deque: it is not
  part of the run, and it is the first row of the next.
\<close>

theorem primary_key_run_grouping:
  assumes "\<forall>r\<in>set rows. \<not> isl (pkey tbl r)"
  shows "flatten new_row tbl rows \<lparr>results = None, result_deque = []\<rparr>
           = collect (map (map_group new_row tbl) (pk_runs (pkey tbl) rows))
         \<and> (\<forall>st x xs.
               result_deque st @ (case results st of None \<Rightarrow> rows | Some c \<Rightarrow> c) = x # xs
               \<and> length (result_deque st) \<le> 1 \<and> set (x # xs) \<subseteq> set rows
               \<longrightarrow> anext new_row tbl rows st
                     = (map_group new_row tbl (x # takeWhile (\<lambda>y. pkey tbl y = pkey tbl x) xs),
                        \<lparr>results = Some (drop 1 (dropWhile (\<lambda>y. pkey tbl y = pkey tbl x) xs)),
                         result_deque = take 1 (dropWhile (\<lambda>y. pkey tbl y = pkey tbl x) xs)\<rparr>))"
proof -
  have f: "flatten new_row tbl rows \<lparr>results = None, result_deque = []\<rparr>
           = collect (map (map_group new_row tbl) (pk_runs (pkey tbl) rows))"
    unfolding flatten_def
    using flatten_loop_runs [OF assms, of "\<lparr>results = None, result_deque = []\<rparr>" rows new_row "[]"]
    by (simp add: collect_case)
  have s: "anext new_row tbl rows st
             = (map_group new_row tbl (x # takeWhile (\<lambda>y. pkey tbl y = pkey tbl x) xs),
                \<lparr>results = Some (drop 1 (dropWhile (\<lambda>y. pkey tbl y = pkey tbl x) xs)),
                 result_deque = take 1 (dropWhile (\<lambda>y. pkey tbl y = pkey tbl x) xs)\<rparr>)"
    if "result_deque st @ (case results st of None \<Rightarrow> rows | Some c \<Rightarrow> c) = x # xs"
      and "length (result_deque st) \<le> 1" and "set (x # xs) \<subseteq> set rows" for st x xs
  proof (rule anext_step)
    show "\<forall>r\<in>set (x # xs). \<not> isl (pkey tbl r)" using assms that(3) by blast
  qed (rule that(1), rule that(2))
  from f s show ?thesis by blast
qed

theorem primary_key_run_grouping_witness:
  "pk_runs (pkey users) joined_rows = [[joined_row 1 10, joined_row 1 11], [joined_row 2 12]]
   \<and> flatten accept_row users joined_rows \<lparr>results = None, result_deque = []\<rparr>
       = collect [map_many accept_row users [joined_row 1 10, joined_row 1 11],
                  map_columns accept_row users (joined_row 2 12)]
   \<and> map_sum id (map (\<lambda>r. length (relationship_data r)))
        (flatten accept_row users joined_rows \<lparr>results = None, result_deque = []\<rparr>) = Inr [2, 1]
   \<and> snd (anext accept_row users joined_rows \<lparr>results = None, result_deque = []\<rparr>)
       = \<lparr>results = Some [], result_deque = [joined_row 2 12]\<rparr>"
proof -
  have k: "pkey users (joined_row a b) = Inr [a]" for a b
    by (simp add: pkey_def joined_row_def example_defs alias_name_def)
  have h: "\<forall>r\<in>set joined_rows. \<not> isl (pkey users r)"
    by (simp add: joined_rows_def k)
  have r: "pk_runs (pkey users) joined_rows = [[joined_row 1 10, joined_row 1 11], [joined_row 2 12]]"
    by (simp add: joined_rows_def k)
  note g = primary_key_run_grouping [OF h, of accept_row]
  from g have "flatten accept_row users joined_rows \<lparr>results = None, result_deque = []\<rparr>
       = collect (map (map_group accept_row users) (pk_runs (pkey users) joined_rows))"
    by blast
  then have f: "flatten accept_row users joined_rows \<lparr>results = None, result_deque = []\<rparr>
       = collect [map_many accept_row users [joined_row 1 10, joined_row 1 11],
                  map_columns accept_row users (joined_row 2 12)]"
    unfolding r by (simp add: map_group_def)
  have m: "map_sum id (map (\<lambda>r. length (relationship_data r)))
        (collect [map_many accept_row users [joined_row 1 10, joined_row 1 11],
                  map_columns accept_row users (joined_row 2 12)]) = Inr [2, 1]"
    by (simp add: map_many_def map_columns_def accept_row_def update_relationships_def
        joined_row_def alias_mapping_def example_defs alias_name_def snapshot_previous_def
        get_column_value_def)
  have pre: "result_deque \<lparr>results = None, result_deque = []\<rparr>
               @ (case results \<lparr>results = None, result_deque = []\<rparr> of
                    None \<Rightarrow> joined_rows | Some c \<Rightarrow> c)
             = joined_row 1 10 # [joined_row 1 11, joined_row 2 12]
           \<and> length (result_deque \<lparr>results = None, result_deque = []\<rparr>) \<le> 1
           \<and> set (joined_row 1 10 # [joined_row 1 11, joined_row 2 12]) \<subseteq> set joined_rows"
    by (simp add: joined_rows_def)
  from g pre have "anext accept_row users joined_rows \<lparr>results = None, result_deque = []\<rparr>
      = (map_group accept_row users
           (joined_row 1 10 # takeWhile (\<lambda>y. pkey users y = pkey users (joined_row 1 10)) [joined_row 1 11, joined_row 2 12]),
         \<lparr>results = Some (drop 1 (dropWhile (\<lambda>y. pkey users y = pkey users (joined_row 1 10)) [joined_row 1 11, joined_row 2 12])),
          result_deque = take 1 (dropWhile (\<lambda>y. pkey users y = pkey users (joined_row 1 10)) [joined_row 1 11, joined_row 2 12])\<rparr>)"
    by blast
  then have a: "snd (anext accept_row users joined_rows \<lparr>results = None, result_deque = []\<rparr>)
       = \<lparr>results = Some [], result_deque = [joined_row 2 12]\<rparr>"
    by (simp add: k)
  from r f m a show ?thesis by (simp only:)
qed


subsection \<open>Compilation of a select query\<close>

lemma get_required_join_paths_fst:
  "fst (get_required_join_paths rs) = map foreign_table (filter (\<lambda>r. load_type r = ''joined'') rs)"
  by (induction rs) (auto split: prod.splits)

lemma takeWhile_sep: "x \<notin> set t \<Longrightarrow> takeWhile (\<lambda>c. c \<noteq> x) (t @ x # n) = t"
  by (induction t) auto

lemma sep_split:
  assumes "t1 @ x # n1 = t2 @ x # n2" "x \<notin> set t1" "x \<notin> set t2"
  shows "t1 = t2 \<and> n1 = n2"
proof -
  have "takeWhile (\<lambda>c. c \<noteq> x) (t1 @ x # n1) = takeWhile (\<lambda>c. c \<noteq> x) (t2 @ x # n2)"
    using assms(1) by simp
  then have "t1 = t2" using assms(2,3) by (simp add: takeWhile_sep)
  with assms(1) show ?thesis by simp
qed

lemma format_conditions_c_sql:
  "fst (snd (format_conditions gen conds (params, c_sql, counter)))
     = c_sql @ map fst (emitted_triples gen conds counter)"
  by (induction conds arbitrary: params c_sql counter) (auto split: prod.splits)

lemma generate_sql_text:
  assumes "q_table q = Some tbl"
  shows "\<exists>params counter. fst (generate_sql gen sgen q) = Inr (
      ''SELECT ''
        @ join '', '' (map column_expr (iter_columns tbl
             @ concat (map iter_columns (fst (get_required_join_paths (iter_relationships tbl))))))
        @ '' FROM '' @ quoted_name (table_ref tbl) @ '' ''
        @ join '' '' (snd (get_required_join_paths (iter_relationships tbl)))
        @ (if conditions q = [] then []
           else '' WHERE '' @ join '' AND '' (map fst (emitted_triples gen (conditions q) 0)))
        @ (case row_limit q of None \<Rightarrow> [] | Some n \<Rightarrow> '' LIMIT '' @ str_int n)
        @ (case row_offset q of None \<Rightarrow> [] | Some n \<Rightarrow> '' OFFSET '' @ str_int n)
        @ (case orderer q of None \<Rightarrow> [] | Some s \<Rightarrow> '' ORDER BY '' @ sgen s counter),
      params)"
proof -
  obtain ft joins where j: "get_required_join_paths (iter_relationships tbl) = (ft, joins)"
    by (cases "get_required_join_paths (iter_relationships tbl)") auto
  obtain params c_sql counter where
    f: "format_conditions gen (conditions q) ([], [], 0) = (params, c_sql, counter)"
    by (cases "format_conditions gen (conditions q) ([], [], 0)") auto
  have c: "c_sql = map fst (emitted_triples gen (conditions q) 0)"
    using format_conditions_c_sql [of gen "conditions q" "[]" "[]" 0] f by simp
  have e: "(c_sql = []) = (conditions q = [])"
    unfolding c by (cases "conditions q") (auto split: prod.splits)
  show ?thesis
    using assms j f e c
    by (auto simp: generate_sql_def Let_def split: option.splits)
qed


text \<open>
  C3, as stated, fails: the alias is not collision-free. The column \<^verbatim>\<open>id\<close> of a table
  named \<^verbatim>\<open>user_roles\<close> and the column \<^verbatim>\<open>roles_id\<close> of a table named \<^verbatim>\<open>user\<close> get the
  same alias, \<^verbatim>\<open>"t_user_roles_id"\<close>.
\<close>

theorem alias_collision_counterexample:
  "alias_name \<lparr>table = \<lparr>table_id = 3, tablename = ''user_roles'', quoted_name = dquote ''user_roles''\<rparr>,
                name = ''id''\<rparr> None True
     = alias_name \<lparr>table = \<lparr>table_id = 4, tablename = ''user'', quoted_name = dquote ''user''\<rparr>,
                    name = ''roles_id''\<rparr> None True
   \<and> (''user_roles'', ''id'') \<noteq> (''user'', ''roles_id'')"
  by (simp add: alias_name_def)

text \<open>
  C3, amended. For a query with a table set, the projection list of the compiled text
  is the expression of every column of the primary table, then of every column of
  each eagerly joined table (load type \<^verbatim>\<open>joined\<close>) in relationship order; each is
  aliased \<^verbatim>\<open>"t_<table name>_<column name>"\<close> after its owning table. Two columns with
  the same alias have the same table name if their column names agree, the same column
  name if their table names agree, and the same table name and column name if neither
  table name contains an underscore.
\<close>

theorem projection_aliases:
  "(q_table q = Some tbl \<longrightarrow>
      (\<exists>rest params. fst (generate_sql gen sgen q)
         = Inr (''SELECT ''
                 @ join '', '' (map column_expr (iter_columns tbl
                      @ concat (map (\<lambda>r. iter_columns (foreign_table r))
                                 (filter (\<lambda>r. load_type r = ''joined'') (iter_relationships tbl)))))
                 @ '' FROM '' @ rest, params)))
   \<and> column_expr c = dquote (tablename (table c)) @ ''.'' @ dquote (name c) @ '' AS ''
        @ alias_name c None True
   \<and> alias_name c None True = dquote (''t_'' @ tablename (table c) @ ''_'' @ name c)
   \<and> (alias_name c None True = alias_name d None True \<longrightarrow>
        (name c = name d \<longrightarrow> tablename (table c) = tablename (table d))
      \<and> (tablename (table c) = tablename (table d) \<longrightarrow> name c = name d)
      \<and> (CHR ''_'' \<notin> set (tablename (table c)) \<and> CHR ''_'' \<notin> set (tablename (table d))
           \<longrightarrow> tablename (table c) = tablename (table d) \<and> name c = name d))"
proof -
  have p: "q_table q = Some tbl \<longrightarrow>
      (\<exists>rest params. fst (generate_sql gen sgen q)
         = Inr (''SELECT ''
                 @ join '', '' (map column_expr (iter_columns tbl
                      @ concat (map (\<lambda>r. iter_columns (foreign_table r))
                                 (filter (\<lambda>r. load_type r = ''joined'') (iter_relationships tbl)))))
                 @ '' FROM '' @ rest, params))"
  proof
    assume t: "q_table q = Some tbl"
    from generate_sql_text [OF t, of gen sgen] show "\<exists>rest params. fst (generate_sql gen sgen q)
         = Inr (''SELECT ''
                 @ join '', '' (map column_expr (iter_columns tbl
                      @ concat (map (\<lambda>r. iter_columns (foreign_table r))
                                 (filter (\<lambda>r. load_type r = ''joined'') (iter_relationships tbl)))))
                 @ '' FROM '' @ rest, params)"
      by (auto simp: get_required_join_paths_fst comp_def)
  qed
  have a: "alias_name c None True = alias_name d None True \<longrightarrow>
        (name c = name d \<longrightarrow> tablename (table c) = tablename (table d))
      \<and> (tablename (table c) = tablename (table d) \<longrightarrow> name c = name d)
      \<and> (CHR ''_'' \<notin> set (tablename (table c)) \<and> CHR ''_'' \<notin> set (tablename (table d))
           \<longrightarrow> tablename (table c) = tablename (table d) \<and> name c = name d)"
  proof
    assume "alias_name c None True = alias_name d None True"
    then have e: "tablename (table c) @ CHR ''_'' # name c = tablename (table d) @ CHR ''_'' # name d"
      by (simp add: alias_name_def dquote_def)
    show "(name c = name d \<longrightarrow> tablename (table c) = tablename (table d))
      \<and> (tablename (table c) = tablename (table d) \<longrightarrow> name c = name d)
      \<and> (CHR ''_'' \<notin> set (tablename (table c)) \<and> CHR ''_'' \<notin> set (tablename (table d))
           \<longrightarrow> tablename (table c) = tablename (table d) \<and> name c = name d)"
      using e sep_split [OF e] by auto
  qed
  have e: "column_expr c = dquote (tablename (table c)) @ ''.'' @ dquote (name c) @ '' AS ''
        @ alias_name c None True"
    by (simp add: column_expr_def)
  have n: "alias_name c None True = dquote (''t_'' @ tablename (table c) @ ''_'' @ name c)"
    by (simp add: alias_name_def)
  from p e n a show ?thesis by blast
qed


theorem projection_aliases_witness:
  "(\<exists>rest params.
      fst (generate_sql (operator_generate_sql (\<lambda>n. '':'' @ n)) (\<lambda>s n. ''id ASC'') example_query)
        = Inr (''SELECT ''
                @ join '', '' (map column_expr [users_id, users_email, posts_id, posts_user_id])
                @ '' FROM '' @ rest, params))
   \<and> alias_name users_id None True = dquote ''t_users_id''
   \<and> alias_name users_id None True \<noteq> alias_name posts_id None True"
  using projection_aliases [of example_query users "operator_generate_sql (\<lambda>n. '':'' @ n)"
      "\<lambda>s n. ''id ASC''" users_id posts_id]
  by (auto simp: example_query_def example_defs)

text \<open>
  C5. For a query with a table set, the compiled text is the \<^verbatim>\<open>SELECT ... FROM\<close> head
  with the joins, then \<^verbatim>\<open>WHERE\<close> with the conditions' fragments joined by \<^verbatim>\<open>AND\<close> exactly
  when there is a condition, then \<^verbatim>\<open>LIMIT\<close> exactly when a limit is set, then \<^verbatim>\<open>OFFSET\<close>
  exactly when an offset is set, then \<^verbatim>\<open>ORDER BY\<close> exactly when an orderer is set, in this
  order; the limit and the offset 0 are set values and give \<^verbatim>\<open>LIMIT 0\<close> and \<^verbatim>\<open>OFFSET 0\<close>.
\<close>

theorem generate_sql_clauses:
  "q_table q = Some tbl \<Longrightarrow>
   str_int 0 = ''0'' \<and>
   (\<exists>params counter. fst (generate_sql gen sgen q) = Inr (
      ''SELECT ''
        @ join '', '' (map column_expr (iter_columns tbl
             @ concat (map iter_columns (fst (get_required_join_paths (iter_relationships tbl))))))
        @ '' FROM '' @ quoted_name (table_ref tbl) @ '' ''
        @ join '' '' (snd (get_required_join_paths (iter_relationships tbl)))
        @ (if conditions q = [] then []
           else '' WHERE '' @ join '' AND '' (map fst (emitted_triples gen (conditions q) 0)))
        @ (case row_limit q of None \<Rightarrow> [] | Some n \<Rightarrow> '' LIMIT '' @ str_int n)
        @ (case row_offset q of None \<Rightarrow> [] | Some n \<Rightarrow> '' OFFSET '' @ str_int n)
        @ (case orderer q of None \<Rightarrow> [] | Some s \<Rightarrow> '' ORDER BY '' @ sgen s counter),
      params))"
  using generate_sql_text [of q tbl gen sgen] by (simp add: str_int_def digit_char_def)

theorem generate_sql_clauses_witness:
  "q_table example_query = Some users \<and>
   (\<exists>params. fst (generate_sql (operator_generate_sql (\<lambda>n. '':'' @ n)) (\<lambda>s n. ''id ASC'') example_query)
     = Inr (''SELECT '' @ dquote ''users'' @ ''.'' @ dquote ''id'' @ '' AS '' @ dquote ''t_users_id''
            @ '', '' @ dquote ''users'' @ ''.'' @ dquote ''email'' @ '' AS '' @ dquote ''t_users_email''
            @ '', '' @ dquote ''posts'' @ ''.'' @ dquote ''id'' @ '' AS '' @ dquote ''t_posts_id''
            @ '', '' @ dquote ''posts'' @ ''.'' @ dquote ''user_id'' @ '' AS '' @ dquote ''t_posts_user_id''
            @ '' FROM '' @ dquote ''users'' @ '' ''
            @ ''JOIN '' @ dquote ''posts'' @ '' ON '' @ dquote ''users'' @ ''.'' @ dquote ''id''
            @ '' = '' @ dquote ''posts'' @ ''.'' @ dquote ''user_id''
            @ '' WHERE '' @ dquote ''users'' @ ''.'' @ dquote ''id'' @ '' = :param_0''
            @ '' AND '' @ dquote ''users'' @ ''.'' @ dquote ''id'' @ '' < ''
            @ dquote ''posts'' @ ''.'' @ dquote ''user_id''
            @ '' LIMIT 0 OFFSET 0 ORDER BY id ASC'', params))"
proof -
  have t: "q_table example_query = Some users" by (simp add: example_query_def)
  from generate_sql_clauses [OF t, of "operator_generate_sql (\<lambda>n. '':'' @ n)" "\<lambda>s n. ''id ASC''"]
  obtain params counter where
    "fst (generate_sql (operator_generate_sql (\<lambda>n. '':'' @ n)) (\<lambda>s n. ''id ASC'') example_query)
       = Inr (''SELECT ''
        @ join '', '' (map column_expr (iter_columns users
             @ concat (map iter_columns (fst (get_required_join_paths (iter_relationships users))))))
        @ '' FROM '' @ quoted_name (table_ref users) @ '' ''
        @ join '' '' (snd (get_required_join_paths (iter_relationships users)))
        @ (if conditions example_query = [] then []
           else '' WHERE '' @ join '' AND ''
                  (map fst (emitted_triples (operator_generate_sql (\<lambda>n. '':'' @ n)) (conditions example_query) 0)))
        @ (case row_limit example_query of None \<Rightarrow> [] | Some n \<Rightarrow> '' LIMIT '' @ str_int n)
        @ (case row_offset example_query of None \<Rightarrow> [] | Some n \<Rightarrow> '' OFFSET '' @ str_int n)
        @ (case orderer example_query of None \<Rightarrow> [] | Some s \<Rightarrow> '' ORDER BY '' @ (\<lambda>s n. ''id ASC'') s counter),
      params)"
    by blast
  then show ?thesis
    using t
    by (simp add: example_query_def example_defs column_expr_def alias_name_def join_clause_def
        quoted_fullname_def operator_generate_sql_def param_name_def str_int_def digit_char_def dquote_def)
qed

subsection \<open>The mapping step\<close>

text \<open>
  C8, as stated, fails: the exception that \<^verbatim>\<open>map_columns\<close> raises when the row
  constructor rejects the columns carries a fixed message, which names no column.
\<close>

theorem map_columns_error_counterexample:
  "map_columns no_email_row users [(''t_users_id'', 1), (''t_users_email'', 7)]
     = Inl (TypeError init_failed)
   \<and> \<not> contains_str init_failed ''email''
   \<and> \<not> contains_str init_failed ''t_users_email''"
  by (simp add: map_columns_def no_email_row_def alias_mapping_def example_defs alias_name_def init_failed_def)

text \<open>
  C8, amended. When the row constructor rejects the keyword arguments built from a
  result row, \<^verbatim>\<open>map_columns\<close> raises a \<^verbatim>\<open>TypeError\<close> with one fixed message, the same
  whatever the columns are, which names no column; the exception reaches the caller of
  \<^verbatim>\<open>map_columns\<close>, of \<^verbatim>\<open>map_many\<close> and of the mapping step of \<^verbatim>\<open>__anext__\<close> for a group
  that starts with the row.
\<close>

theorem map_columns_rejected:
  "new_row (fst (split_results (alias_mapping tbl) res ([], []))) = None
   \<Longrightarrow> map_columns new_row tbl res = Inl (TypeError init_failed)
       \<and> map_many new_row tbl (res # runon) = Inl (TypeError init_failed)
       \<and> map_group new_row tbl (res # runon) = Inl (TypeError init_failed)"
  by (auto simp: map_columns_def map_many_def map_group_def split: prod.splits)

theorem map_columns_rejected_witness:
  "no_email_row (fst (split_results (alias_mapping users) [(''t_users_id'', 1), (''t_users_email'', 7)] ([], []))) = None
   \<and> map_columns no_email_row users [(''t_users_id'', 1), (''t_users_email'', 7)] = Inl (TypeError init_failed)
   \<and> map_many no_email_row users [[(''t_users_id'', 1), (''t_users_email'', 7)], [(''t_users_id'', 1), (''t_users_email'', 7)]] = Inl (TypeError init_failed)"
proof -
  have h: "no_email_row (fst (split_results (alias_mapping users) [(''t_users_id'', 1), (''t_users_email'', 7)] ([], []))) = None"
    by (simp add: no_email_row_def alias_mapping_def example_defs alias_name_def)
  from map_columns_rejected [of no_email_row users "[(''t_users_id'', 1), (''t_users_email'', 7)]"
      "[[(''t_users_id'', 1), (''t_users_email'', 7)]]"] h
  show ?thesis by simp
qed

subsection \<open>The parameter map and the placeholders\<close>



subsection \<open>Two calls of the compilation\<close>

lemma generate_sql_call_result:
  "fst (generate_sql_call gen sgen (q, store)) = fst (generate_sql gen sgen q)
   \<and> fst (snd (generate_sql_call gen sgen (q, store))) = q
   \<and> length (snd (snd (generate_sql_call gen sgen (q, store)))) = Suc (length store)
   \<and> take (length store) (snd (snd (generate_sql_call gen sgen (q, store)))) = store"
  by (simp add: generate_sql_call_def generate_sql_def itertools_count_def Let_def
      split: option.splits prod.splits)

lemma generate_sql_call_counter:
  "q_table q = Some tbl \<Longrightarrow>
   snd (snd (generate_sql_call gen sgen (q, store)))
     = store @ [snd (snd (format_conditions gen (conditions q) ([], [], 0)))]"
  by (simp add: generate_sql_call_def itertools_count_def Let_def split: option.splits prod.splits)

lemma generate_sql_params:
  "q_table q = Some tbl \<Longrightarrow>
   \<exists>text. fst (generate_sql gen sgen q)
            = Inr (text, fst (format_conditions gen (conditions q) ([], [], 0)))"
  by (simp add: generate_sql_def Let_def split: prod.splits)

text \<open>
  C4. Compiling a \<^verbatim>\<open>SelectQuery\<close> twice without modifying it in between returns the
  same result both times, the same SQL text and parameter map or the same exception,
  whatever counters the store holds before the first call. Every call leaves the
  query as it was; the first call leaves its counter in the store where the conditions
  advanced it to, and the second call does not read it: it creates a counter of its
  own, so its conditions are compiled from 0 again. With a table set, the result is a
  text and the parameter map of the conditions compiled from 0.
\<close>

theorem generate_sql_twice:
  "fst (generate_sql_call gen sgen (snd (generate_sql_call gen sgen (q, store))))
     = fst (generate_sql_call gen sgen (q, store))
   \<and> fst (snd (generate_sql_call gen sgen (q, store))) = q
   \<and> fst (snd (generate_sql_call gen sgen (snd (generate_sql_call gen sgen (q, store))))) = q
   \<and> take (length store) (snd (snd (generate_sql_call gen sgen (q, store)))) = store
   \<and> fst (generate_sql_call gen sgen (q, store)) = fst (generate_sql gen sgen q)
   \<and> (q_table q = Some tbl \<longrightarrow>
        snd (snd (generate_sql_call gen sgen (q, store)))
          = store @ [snd (snd (format_conditions gen (conditions q) ([], [], 0)))]
        \<and> (\<exists>text. fst (generate_sql_call gen sgen (q, store))
              = Inr (text, fst (format_conditions gen (conditions q) ([], [], 0)))))"
proof -
  obtain r q1 store1 where c: "generate_sql_call gen sgen (q, store) = (r, q1, store1)"
    by (cases "generate_sql_call gen sgen (q, store)") auto
  from generate_sql_call_result [of gen sgen q store] c
  have r: "r = fst (generate_sql gen sgen q)" and q1: "q1 = q"
    and t: "take (length store) store1 = store"
    by simp_all
  from generate_sql_call_result [of gen sgen q store1]
  have r2: "fst (generate_sql_call gen sgen (q, store1)) = fst (generate_sql gen sgen q)"
    and q2: "fst (snd (generate_sql_call gen sgen (q, store1))) = q"
    by simp_all
  have p: "q_table q = Some tbl \<longrightarrow>
        store1 = store @ [snd (snd (format_conditions gen (conditions q) ([], [], 0)))]
        \<and> (\<exists>text. r = Inr (text, fst (format_conditions gen (conditions q) ([], [], 0))))"
    using generate_sql_call_counter [of q tbl gen sgen store] generate_sql_params [of q tbl gen sgen] c r
    by auto
  show ?thesis
    unfolding c using r q1 t r2 q2 p by simp
qed

theorem generate_sql_twice_witness:
  "snd (generate_sql_call zero_binding (\<lambda>s n. []) (one_condition_query, [7]))
     = (one_condition_query, [7, 1])
   \<and> snd (generate_sql_call zero_binding (\<lambda>s n. []) (one_condition_query, [7, 1]))
     = (one_condition_query, [7, 1, 1])
   \<and> fst (generate_sql_call zero_binding (\<lambda>s n. []) (one_condition_query, [7, 1]))
     = fst (generate_sql_call zero_binding (\<lambda>s n. []) (one_condition_query, [7]))
   \<and> (\<exists>text. fst (generate_sql_call zero_binding (\<lambda>s n. []) (one_condition_query, [7]))
         = Inr (text, [(Some ''param_0'', PyVal 0)]))"
proof -
  let ?g = "zero_binding"
  let ?s = "\<lambda>(s::sorter) (n::nat). []"
  let ?q = "one_condition_query"
  have t: "q_table ?q = Some posts" by (simp add: one_condition_query_def)
  have f: "format_conditions ?g (conditions ?q) ([], [], 0)
             = ([(Some ''param_0'', PyVal 0)], [''x = :param_0''], 1)"
    by (simp add: one_condition_query_def zero_binding_def param_name_def digit_char_def)
  note a = generate_sql_twice [of ?g ?s ?q "[7]" posts]
  note b = generate_sql_twice [of ?g ?s ?q "[7, 1]" posts]
  from a have q1: "fst (snd (generate_sql_call ?g ?s (?q, [7]))) = ?q"
    by blast
  from a t have c1: "snd (snd (generate_sql_call ?g ?s (?q, [7])))
      = [7] @ [snd (snd (format_conditions ?g (conditions ?q) ([], [], 0)))]"
    by blast
  from q1 c1 have s1: "snd (generate_sql_call ?g ?s (?q, [7])) = (?q, [7, 1])"
    unfolding f by (simp add: prod_eq_iff)
  from b have q2: "fst (snd (generate_sql_call ?g ?s (?q, [7, 1]))) = ?q"
    by blast
  from b t have c2: "snd (snd (generate_sql_call ?g ?s (?q, [7, 1])))
      = [7, 1] @ [snd (snd (format_conditions ?g (conditions ?q) ([], [], 0)))]"
    by blast
  from q2 c2 have s2: "snd (generate_sql_call ?g ?s (?q, [7, 1])) = (?q, [7, 1, 1])"
    unfolding f by (simp add: prod_eq_iff)
  from a have "fst (generate_sql_call ?g ?s (snd (generate_sql_call ?g ?s (?q, [7]))))
      = fst (generate_sql_call ?g ?s (?q, [7]))"
    by blast
  then have e: "fst (generate_sql_call ?g ?s (?q, [7, 1])) = fst (generate_sql_call ?g ?s (?q, [7]))"
    unfolding s1 .
  from a t have "\<exists>text. fst (generate_sql_call ?g ?s (?q, [7]))
         = Inr (text, fst (format_conditions ?g (conditions ?q) ([], [], 0)))"
    by blast
  then have x: "\<exists>text. fst (generate_sql_call ?g ?s (?q, [7]))
         = Inr (text, [(Some ''param_0'', PyVal 0)])"
    unfolding f by simp
  from s1 s2 e x show ?thesis by blast
qed


subsection \<open>\<^verbatim>\<open>order_by\<close>\<close>

text \<open>
  C6, as stated, fails: a single \<^verbatim>\<open>Sorter\<close> argument is installed whatever the sort
  direction says.
\<close>

theorem order_by_unknown_direction_counterexample:
  "order_by (init_select_query :: unit select_query)
     [SorterItem (DescSorter [ColumnItem users_id])] ''sideways''
     = Inr (init_select_query\<lparr>orderer := Some (DescSorter [ColumnItem users_id])\<rparr>)"
  by (simp add: order_by_def)

text \<open>
  C6, amended. \<^verbatim>\<open>order_by\<close> with no column or sorter argument raises \<^verbatim>\<open>TypeError\<close>, whatever
  the direction. With exactly one argument that is a \<^verbatim>\<open>Sorter\<close>, the sorter becomes the
  orderer and the direction is not looked at. With any other non-empty arguments, a
  direction other than \<^verbatim>\<open>"asc"\<close> and \<^verbatim>\<open>"desc"\<close> raises \<^verbatim>\<open>TypeError\<close>. Both exceptions are
  results of the call itself, which touches neither the session nor a cursor, and the
  query is not changed by a call that raises.
\<close>

theorem order_by_errors:
  "order_by q [] sort_order = Inl (TypeError ''Must provide at least one item to order with'')
   \<and> order_by q [SorterItem s] sort_order = Inr (q\<lparr>orderer := Some s\<rparr>)
   \<and> (col \<noteq> [] \<and> (\<forall>s. col \<noteq> [SorterItem s]) \<and> sort_order \<noteq> ''asc'' \<and> sort_order \<noteq> ''desc''
        \<longrightarrow> order_by q col sort_order = Inl (TypeError (''Unknown sort order '' @ sort_order)))"
  by (auto simp: order_by_def split: list.splits order_item.splits)

theorem order_by_errors_witness:
  "order_by (init_select_query :: unit select_query) [] ''asc''
     = Inl (TypeError ''Must provide at least one item to order with'')
   \<and> order_by (init_select_query :: unit select_query) [ColumnItem users_id] ''sideways''
     = Inl (TypeError ''Unknown sort order sideways'')
   \<and> order_by (init_select_query :: unit select_query)
        [SorterItem (AscSorter [ColumnItem users_id]), ColumnItem users_email] ''sideways''
     = Inl (TypeError ''Unknown sort order sideways'')"
  using order_by_errors [of "init_select_query :: unit select_query" "''asc''" undefined
      "[ColumnItem users_id]"]
    order_by_errors [of "init_select_query :: unit select_query" "''sideways''" undefined
      "[ColumnItem users_id]"]
    order_by_errors [of "init_select_query :: unit select_query" "''sideways''" undefined
      "[SorterItem (AscSorter [ColumnItem users_id]), ColumnItem users_email]"]
  by simp

subsection \<open>Comparing columns\<close>

text \<open>
  C7. \<^verbatim>\<open>Column.__eq__\<close> applied to two columns returns a plain boolean, true exactly when
  the two have the same table (the same table object, whatever the tables are named)
  and the same name, and \<^verbatim>\<open>Column.__ne__\<close> returns its negation; applied to a column
  and a value that is not a column, they return the operator objects \<^verbatim>\<open>Eq\<close> and
  \<^verbatim>\<open>NEq\<close>, never a boolean.
\<close>

theorem column_comparison:
  "column_eq c (ColumnObj d)
     = PyBool (table_id (table c) = table_id (table d) \<and> name c = name d)
   \<and> column_ne c (ColumnObj d)
     = PyBool (\<not> (table_id (table c) = table_id (table d) \<and> name c = name d))
   \<and> column_eq c (OtherObj v) = Operator (Eq c (OtherObj v))
   \<and> column_ne c (OtherObj v) = Operator (NEq c (OtherObj v))
   \<and> (\<forall>b. column_eq c (OtherObj v) \<noteq> PyBool b)
   \<and> (\<forall>b. column_ne c (OtherObj v) \<noteq> PyBool b)"
  by simp

theorem column_comparison_witness:
  "column_eq users_id (ColumnObj users_id) = (PyBool True :: int compared)
   \<and> column_ne users_id (ColumnObj users_id) = (PyBool False :: int compared)
   \<and> column_eq users_id (ColumnObj users_email) = (PyBool False :: int compared)
   \<and> column_ne users_id (ColumnObj users_email) = (PyBool True :: int compared)
   \<and> column_eq users_id (ColumnObj namesake_id) = (PyBool False :: int compared)
   \<and> column_ne users_id (ColumnObj namesake_id) = (PyBool True :: int compared)
   \<and> column_eq users_id (OtherObj (PyVal (2::int))) = Operator (Eq users_id (OtherObj (PyVal 2)))
   \<and> column_ne users_id (OtherObj (PyNone :: int pyval)) = Operator (NEq users_id (OtherObj PyNone))"
  using column_comparison [of users_id users_id "PyVal (2::int)"]
    column_comparison [of users_id users_email "PyNone :: int pyval"]
    column_comparison [of users_id namesake_id "PyNone :: int pyval"]
  by (simp add: users_id_def users_email_def users_ref_def namesake_id_def namesake_ref_def)

subsection \<open>Compilation of the mutation queries\<close>

lemma run_emit_counter:
  "n \<le> snd (run_emit p n) \<and> emitted_names p n = map param_name [n ..< snd (run_emit p n)]"
proof (induction p arbitrary: n)
  case (Return a)
  show ?case by simp
next
  case (Emit k)
  have ih: "Suc n \<le> snd (run_emit (k (param_name n)) (Suc n))
        \<and> emitted_names (k (param_name n)) (Suc n)
            = map param_name [Suc n ..< snd (run_emit (k (param_name n)) (Suc n))]"
    by (rule Emit.IH) simp
  then show ?case by (simp add: upt_conv_Cons del: upt_Suc)
qed

lemma counter_at_mono: "n \<le> counter_at get_sql rows n i"
proof (induction get_sql rows n i rule: counter_at.induct)
  case (3 get_sql row rest counter i)
  then show ?case
    using run_emit_counter [of counter "get_sql row"] by simp
qed simp_all

lemma names_per_row_concat:
  "concat (names_per_row get_sql rows n)
     = map param_name [n ..< counter_at get_sql rows n (length rows)]"
proof (induction rows arbitrary: n)
  case Nil
  show ?case by simp
next
  case (Cons row rest)
  define n' where "n' = snd (run_emit (get_sql row) n)"
  have a: "n \<le> n'" and e: "emitted_names (get_sql row) n = map param_name [n ..< n']"
    using run_emit_counter [of n "get_sql row"] by (simp_all add: n'_def)
  have b: "n' \<le> counter_at get_sql rest n' (length rest)"
    by (rule counter_at_mono)
  have "[n ..< counter_at get_sql rest n' (length rest)]
          = [n ..< n'] @ [n' ..< counter_at get_sql rest n' (length rest)]"
    using a b by (metis le_Suc_ex upt_add_eq_append)
  then show ?case
    using Cons.IH [of n'] e by (simp add: n'_def [symmetric])
qed

lemma names_per_row_distinct: "distinct (concat (names_per_row get_sql rows n))"
  unfolding names_per_row_concat by (simp add: distinct_map inj_on_def param_name_inj)

lemma names_per_row_length: "length (names_per_row get_sql rows n) = length rows"
  by (induction rows arbitrary: n) simp_all

lemma names_per_row_nth:
  "i < length rows \<Longrightarrow>
   names_per_row get_sql rows n ! i = emitted_names (get_sql (rows ! i)) (counter_at get_sql rows n i)"
proof (induction rows arbitrary: n i)
  case Nil
  then show ?case by simp
next
  case (Cons row rest)
  then show ?case by (cases i) simp_all
qed

lemma distinct_concat_nth:
  "distinct (concat xss) \<Longrightarrow> i < j \<Longrightarrow> j < length xss \<Longrightarrow> set (xss ! i) \<inter> set (xss ! j) = {}"
proof (induction xss arbitrary: i j)
  case Nil
  then show ?case by simp
next
  case (Cons xs xss)
  show ?case
  proof (cases i)
    case 0
    with Cons.prems obtain j' where j: "j = Suc j'" "j' < length xss" by (cases j) auto
    have "xss ! j' \<in> set xss" using j by simp
    then have "set (xss ! j') \<subseteq> set (concat xss)" by auto
    with Cons.prems(1) 0 j show ?thesis by auto
  next
    case (Suc i')
    with Cons.prems obtain j' where j: "j = Suc j'" "j' < length xss" "i' < j'" by (cases j) auto
    with Cons.IH [of i' j'] Cons.prems(1) Suc show ?thesis by simp
  qed
qed

lemma statements_loop_acc:
  "statements_loop get_sql rows n acc = acc @ statements_loop get_sql rows n []"
proof (induction rows arbitrary: n acc)
  case Nil
  show ?case by simp
next
  case (Cons row rest)
  obtain q n' where r: "run_emit (get_sql row) n = (q, n')"
    by (cases "run_emit (get_sql row) n") auto
  have "statements_loop get_sql (row # rest) n acc = (acc @ [q]) @ statements_loop get_sql rest n' []"
    using r Cons.IH [of n' "acc @ [q]"] by simp
  moreover have "statements_loop get_sql (row # rest) n [] = [q] @ statements_loop get_sql rest n' []"
    using r Cons.IH [of n' "[q]"] by simp
  ultimately show ?case by simp
qed

lemma statements_loop_Cons:
  "statements_loop get_sql (row # rest) n []
     = fst (run_emit (get_sql row) n)
         # statements_loop get_sql rest (snd (run_emit (get_sql row) n)) []"
proof -
  obtain q n' where r: "run_emit (get_sql row) n = (q, n')"
    by (cases "run_emit (get_sql row) n") auto
  show ?thesis
    using r statements_loop_acc [of get_sql rest n' "[q]"] by simp
qed

lemma statements_loop_length:
  "length (statements_loop get_sql rows n []) = length rows"
  by (induction rows arbitrary: n) (simp_all add: statements_loop_Cons del: statements_loop.simps(2))

lemma statements_loop_nth:
  "i < length rows \<Longrightarrow>
   statements_loop get_sql rows n [] ! i
     = fst (run_emit (get_sql (rows ! i)) (counter_at get_sql rows n i))"
proof (induction rows arbitrary: n i)
  case Nil
  then show ?case by simp
next
  case (Cons row rest)
  then show ?case
    by (cases i) (simp_all add: statements_loop_Cons del: statements_loop.simps(2))
qed

lemma statements_loop_disjoint:
  assumes c: "\<forall>row n. fst ` set (snd (fst (run_emit (get_sql row) n))) \<subseteq> set (emitted_names (get_sql row) n)"
    and ij: "i < j" "j < length rows"
  shows "fst ` set (snd (statements_loop get_sql rows 0 [] ! i))
           \<inter> fst ` set (snd (statements_loop get_sql rows 0 [] ! j)) = {}"
proof -
  have i: "i < length rows" using ij by simp
  have ki: "fst ` set (snd (statements_loop get_sql rows 0 [] ! i)) \<subseteq> set (names_per_row get_sql rows 0 ! i)"
    using c by (simp add: statements_loop_nth [OF i] names_per_row_nth [OF i])
  have kj: "fst ` set (snd (statements_loop get_sql rows 0 [] ! j)) \<subseteq> set (names_per_row get_sql rows 0 ! j)"
    using c by (simp add: statements_loop_nth [OF ij(2)] names_per_row_nth [OF ij(2)])
  have "set (names_per_row get_sql rows 0 ! i) \<inter> set (names_per_row get_sql rows 0 ! j) = {}"
    by (rule distinct_concat_nth [OF names_per_row_distinct ij(1)])
       (simp add: names_per_row_length ij(2))
  with ki kj show ?thesis by blast
qed

text \<open>
  C9. The \<^verbatim>\<open>generate_sql\<close> methods of \<^verbatim>\<open>InsertQuery\<close>, \<^verbatim>\<open>RowUpdateQuery\<close> and
  \<^verbatim>\<open>RowDeleteQuery\<close> run the same loop over the held rows. For \<open>N\<close> rows it returns
  \<open>N\<close> entries, the entry at a position being what the row at that position returned,
  run from the state in which the rows before it left the one counter of the call. The
  names \<^verbatim>\<open>emit()\<close> returned during the call are pairwise distinct, so no name was handed
  to two rows; hence, when every row takes the keys of its parameters from the names
  \<^verbatim>\<open>emit()\<close> returned to it, no name is a key of the parameters of two entries.
\<close>

theorem mutation_generate_sql:
  "insert_generate_sql get_sql qi = statements_loop get_sql (rows_to_insert qi) 0 []
   \<and> update_generate_sql get_sql qu = statements_loop get_sql (rows_to_update qu) 0 []
   \<and> delete_generate_sql get_sql qd = statements_loop get_sql (rows_to_delete qd) 0 []
   \<and> length (statements_loop get_sql rows 0 []) = length rows
   \<and> (\<forall>i. i < length rows \<longrightarrow>
         statements_loop get_sql rows 0 [] ! i
           = fst (run_emit (get_sql (rows ! i)) (counter_at get_sql rows 0 i))
         \<and> names_per_row get_sql rows 0 ! i
           = emitted_names (get_sql (rows ! i)) (counter_at get_sql rows 0 i))
   \<and> distinct (concat (names_per_row get_sql rows 0))
   \<and> (\<forall>i j. i < j \<and> j < length rows \<longrightarrow>
         set (names_per_row get_sql rows 0 ! i) \<inter> set (names_per_row get_sql rows 0 ! j) = {})
   \<and> ((\<forall>row n. fst ` set (snd (fst (run_emit (get_sql row) n)))
                   \<subseteq> set (emitted_names (get_sql row) n))
        \<longrightarrow> (\<forall>i j. i < j \<and> j < length rows \<longrightarrow>
               fst ` set (snd (statements_loop get_sql rows 0 [] ! i))
                 \<inter> fst ` set (snd (statements_loop get_sql rows 0 [] ! j)) = {}))"
proof -
  have d: "\<forall>i j. i < j \<and> j < length rows \<longrightarrow>
         set (names_per_row get_sql rows 0 ! i) \<inter> set (names_per_row get_sql rows 0 ! j) = {}"
    using distinct_concat_nth [OF names_per_row_distinct, of _ _ get_sql rows 0]
    by (simp add: names_per_row_length)
  show ?thesis
    using d statements_loop_disjoint [of get_sql _ _ rows]
    by (simp add: insert_generate_sql_def update_generate_sql_def delete_generate_sql_def
        statements_loop_length statements_loop_nth names_per_row_nth names_per_row_distinct)
qed


theorem mutation_generate_sql_witness:
  "length (insert_generate_sql single_value_insert \<lparr>rows_to_insert = [10, 20]\<rparr>) = 2
   \<and> insert_generate_sql single_value_insert \<lparr>rows_to_insert = [10, 20]\<rparr> ! 0
       = (''INSERT INTO t (x) VALUES (:param_0)'', [(''param_0'', 10)])
   \<and> insert_generate_sql single_value_insert \<lparr>rows_to_insert = [10, 20]\<rparr> ! 1
       = (''INSERT INTO t (x) VALUES (:param_1)'', [(''param_1'', 20)])
   \<and> fst ` set (snd (insert_generate_sql single_value_insert \<lparr>rows_to_insert = [10, 20]\<rparr> ! 0))
       \<inter> fst ` set (snd (insert_generate_sql single_value_insert \<lparr>rows_to_insert = [10, 20]\<rparr> ! 1))
       = {}"
proof -
  have c: "\<forall>row n. fst ` set (snd (fst (run_emit (single_value_insert row) n)))
                   \<subseteq> set (emitted_names (single_value_insert row) n)"
    by (simp add: single_value_insert_def)
  have e: "insert_generate_sql single_value_insert \<lparr>rows_to_insert = [10, 20]\<rparr>
             = statements_loop single_value_insert [10, 20] 0 []"
    by (simp add: insert_generate_sql_def)
  have n0: "fst (run_emit (single_value_insert 10) (counter_at single_value_insert [10, 20] 0 0))
              = (''INSERT INTO t (x) VALUES (:param_0)'', [(''param_0'', 10)])"
    by (simp add: single_value_insert_def param_name_def digit_char_def)
  have n1: "fst (run_emit (single_value_insert 20) (counter_at single_value_insert [10, 20] 0 1))
              = (''INSERT INTO t (x) VALUES (:param_1)'', [(''param_1'', 20)])"
    by (simp add: single_value_insert_def param_name_def digit_char_def)
  note m = mutation_generate_sql [of single_value_insert "\<lparr>rows_to_insert = [10, 20]\<rparr>"
      "\<lparr>rows_to_update = []\<rparr>" "\<lparr>rows_to_delete = []\<rparr>" "[10, 20]"]
  from m have l: "length (statements_loop single_value_insert [10, 20] 0 []) = length [10, 20 :: int]"
    by blast
  from m have nth: "\<forall>i. i < length [10, 20 :: int] \<longrightarrow>
         statements_loop single_value_insert [10, 20] 0 [] ! i
           = fst (run_emit (single_value_insert ([10, 20] ! i)) (counter_at single_value_insert [10, 20] 0 i))
         \<and> names_per_row single_value_insert [10, 20] 0 ! i
           = emitted_names (single_value_insert ([10, 20] ! i)) (counter_at single_value_insert [10, 20] 0 i)"
    by blast
  from m c have dis: "\<forall>i j. i < j \<and> j < length [10, 20 :: int] \<longrightarrow>
               fst ` set (snd (statements_loop single_value_insert [10, 20] 0 [] ! i))
                 \<inter> fst ` set (snd (statements_loop single_value_insert [10, 20] 0 [] ! j)) = {}"
    by blast
  have i0: "statements_loop single_value_insert [10, 20] 0 [] ! 0
      = fst (run_emit (single_value_insert 10) (counter_at single_value_insert [10, 20] 0 0))"
    using nth [rule_format, of 0] by simp
  have i1: "statements_loop single_value_insert [10, 20] 0 [] ! 1
      = fst (run_emit (single_value_insert 20) (counter_at single_value_insert [10, 20] 0 1))"
    using nth [rule_format, of 1] by simp
  have d: "fst ` set (snd (statements_loop single_value_insert [10, 20] 0 [] ! 0))
       \<inter> fst ` set (snd (statements_loop single_value_insert [10, 20] 0 [] ! 1)) = {}"
    using dis [rule_format, of 0 1] by simp
  show ?thesis
    unfolding e i0 i1 n0 n1 using l d unfolding i0 i1 n0 n1 by simp
qed


subsection \<open>\<^verbatim>\<open>add_row\<close> of the mutation queries\<close>

text \<open>
  C10. \<^verbatim>\<open>InsertQuery.add_row\<close> and \<^verbatim>\<open>RowUpdateQuery.add_row\<close> append the row and return the
  query itself, so a chained call runs on the query with the row recorded.
  \<^verbatim>\<open>RowDeleteQuery.add_row\<close> appends the row too but returns \<^verbatim>\<open>None\<close>: for every row, a
  method call chained on its result fails.
\<close>

theorem add_row_returns:
  "insert_add_row q r
     = (Some (q\<lparr>rows_to_insert := rows_to_insert q @ [r]\<rparr>),
        q\<lparr>rows_to_insert := rows_to_insert q @ [r]\<rparr>)
   \<and> update_add_row u r
     = (Some (u\<lparr>rows_to_update := rows_to_update u @ [r]\<rparr>),
        u\<lparr>rows_to_update := rows_to_update u @ [r]\<rparr>)
   \<and> delete_add_row d r = (None, d\<lparr>rows_to_delete := rows_to_delete d @ [r]\<rparr>)
   \<and> chained (fst (insert_add_row q r)) m1 = Inr (m1 (q\<lparr>rows_to_insert := rows_to_insert q @ [r]\<rparr>))
   \<and> chained (fst (update_add_row u r)) m2 = Inr (m2 (u\<lparr>rows_to_update := rows_to_update u @ [r]\<rparr>))
   \<and> chained (fst (delete_add_row d r)) m3 = Inl AttributeError"
  by (simp add: insert_add_row_def update_add_row_def delete_add_row_def chained_def Let_def)

theorem add_row_returns_witness:
  "chained (fst (insert_add_row \<lparr>rows_to_insert = [1::nat]\<rparr> 2)) (\<lambda>q. insert_add_row q 3)
     = Inr (Some \<lparr>rows_to_insert = [1, 2, 3]\<rparr>, \<lparr>rows_to_insert = [1, 2, 3]\<rparr>)
   \<and> delete_add_row \<lparr>rows_to_delete = [1::nat]\<rparr> 2 = (None, \<lparr>rows_to_delete = [1, 2]\<rparr>)
   \<and> chained (fst (delete_add_row \<lparr>rows_to_delete = [1::nat]\<rparr> 2)) (\<lambda>q. delete_add_row q 3)
     = Inl AttributeError"
  using add_row_returns [of "\<lparr>rows_to_insert = [1::nat]\<rparr>" 2 "\<lparr>rows_to_update = [1::nat]\<rparr>"
      "\<lparr>rows_to_delete = [1::nat]\<rparr>" "\<lambda>q. insert_add_row q 3" "\<lambda>q. update_add_row q 3"
      "\<lambda>q. delete_add_row q 3"]
  by (auto simp: insert_add_row_def Let_def)

end
